theory Spec2Isabelle
  imports Complex_Main
begin

section \<open>Python values shared by all checks\<close>

text \<open>
  Instances of Python's \<open>Exception\<close> that the modelled code can raise. \<open>str_exn\<close> is
  Python's \<open>str(e)\<close>: the message of a \<open>ValueError\<close>, the repr of the key of a
  \<open>KeyError\<close>, and the fixed text of a \<open>ZeroDivisionError\<close>.
\<close>

datatype exn =
    ValueError string
  | KeyError string
  | ZeroDivisionError
  | TypeError string
  | OtherError string

fun str_exn :: "exn \<Rightarrow> string" where
  "str_exn (ValueError m) = m"
| "str_exn (KeyError k) = CHR 0x27 # k @ [CHR 0x27]"
| "str_exn ZeroDivisionError = ''division by zero''"
| "str_exn (TypeError m) = m"
| "str_exn (OtherError m) = m"

text \<open>
  What a call of an abstract method can raise: an instance of \<open>Exception\<close>, or a
  \<open>BaseException\<close> that is not one (\<open>KeyboardInterrupt\<close>, \<open>SystemExit\<close>,
  \<open>asyncio.CancelledError\<close>), given by the name of its class. A handler
  \<open>except Exception\<close> catches the first kind only.
\<close>

datatype raised = Exc exn | BaseExc string

text \<open>
  The values of a \<open>Dict[str, Any]\<close>: strings, numbers, lists and nested dictionaries
  (association lists, in insertion order). Floats are modelled as reals.
\<close>

datatype detail =
    DStr string
  | DNat nat
  | DReal real
  | DBool bool
  | DList "detail list"
  | DDict "(string \<times> detail) list"

section \<open>checks/base.py\<close>

record CheckConfig =
  cfg_check_name :: "string option"
  cfg_check_type :: "string option"
  enabled :: bool
  severity :: string
  threshold :: real
  parameters :: "(string \<times> detail) list"
  description :: "string option"

record CheckResult =
  check_name :: string
  check_type :: string
  status :: string
  score :: real
  details :: "(string \<times> detail) list"
  execution_time :: real
  timestamp :: string
  affected_rows :: "nat option"
  affected_columns :: "string list option"
  recommendations :: "string list option"

text \<open>
  A \<open>QualityCheck\<close> object: its configuration, the name of its class, and the two
  abstract methods. \<open>validate_config\<close> returns a truth value or raises. \<open>execute\<close> may
  have any effect on the world \<open>'w\<close> (a call counter, the clock, a log) and either
  returns a result or raises.
\<close>

record ('d, 'w) QualityCheck =
  config :: CheckConfig
  class_name :: string
  validate_config :: "CheckConfig \<Rightarrow> raised + bool"
  execute :: "CheckConfig \<Rightarrow> 'd \<Rightarrow> 'w \<Rightarrow> (raised + CheckResult) \<times> 'w"

text \<open>Python's \<open>x or default\<close> on an optional string: \<open>None\<close> and \<open>""\<close> are falsy.\<close>

definition or_else :: "string option \<Rightarrow> string \<Rightarrow> string" where
  "or_else x d = (case x of None \<Rightarrow> d | Some s \<Rightarrow> (if s = [] then d else s))"

text \<open>
  \<open>QualityCheck.run\<close>. The clock is read from the world: \<open>now\<close> is \<open>time.time()\<close> and
  \<open>strftime\<close> is \<open>time.strftime("%Y-%m-%dT%H:%M:%SZ")\<close>. The result is a sum: \<open>Inl\<close> is
  an exception that leaves \<open>run\<close>. The call of \<open>validate_config\<close> stands before the
  \<open>try\<close>, so what it raises leaves \<open>run\<close>; the handler around \<open>execute\<close> is
  \<open>except Exception\<close>, so any other \<open>BaseException\<close> leaves \<open>run\<close> as well. The messages
  written to the logger are left out.
\<close>

definition run ::
  "('w \<Rightarrow> real) \<Rightarrow> ('w \<Rightarrow> string) \<Rightarrow> ('d, 'w) QualityCheck \<Rightarrow> 'd \<Rightarrow> 'w
    \<Rightarrow> (raised + CheckResult) \<times> 'w" where
  "run now strftime self data w =
    (if \<not> enabled (config self) then
       (Inr \<lparr>check_name = or_else (cfg_check_name (config self)) (class_name self),
             check_type = or_else (cfg_check_type (config self)) ''unknown'',
             status = ''skipped'',
             score = 1,
             details = [(''reason'', DStr ''Check disabled'')],
             execution_time = 0,
             timestamp = strftime w,
             affected_rows = None, affected_columns = None, recommendations = None\<rparr>, w)
     else
      (case validate_config self (config self) of
         Inl raised_by_validate \<Rightarrow> (Inl raised_by_validate, w)
       | Inr valid \<Rightarrow>
          if \<not> valid then
            (Inr \<lparr>check_name = or_else (cfg_check_name (config self)) (class_name self),
                  check_type = or_else (cfg_check_type (config self)) ''unknown'',
                  status = ''error'',
                  score = 0,
                  details = [(''error'', DStr ''Invalid configuration'')],
                  execution_time = 0,
                  timestamp = strftime w,
                  affected_rows = None, affected_columns = None,
                  recommendations = None\<rparr>, w)
          else
            (let start_time = now w in
             case execute self (config self) data w of
               (Inr result, w') \<Rightarrow>
                 (Inr (result\<lparr>execution_time := now w' - start_time,
                               timestamp := strftime w'\<rparr>), w')
             | (Inl (Exc e), w') \<Rightarrow>
                 (Inr \<lparr>check_name = or_else (cfg_check_name (config self)) (class_name self),
                       check_type = or_else (cfg_check_type (config self)) ''unknown'',
                       status = ''error'',
                       score = 0,
                       details = [(''error'', DStr (str_exn e))],
                       execution_time = now w' - start_time,
                       timestamp = strftime w',
                       affected_rows = None, affected_columns = None,
                       recommendations = None\<rparr>, w')
             | (Inl (BaseExc b), w') \<Rightarrow> (Inl (BaseExc b), w'))))"

text \<open>
  A call-count spy: a check whose \<open>execute\<close> counts its invocations in the world and
  whose two methods have the given outcomes.
\<close>

definition spy_result :: CheckResult where
  "spy_result =
    \<lparr>check_name = ''spy'', check_type = ''spy'', status = ''passed'', score = 1,
     details = [], execution_time = 0, timestamp = [],
     affected_rows = None, affected_columns = None, recommendations = None\<rparr>"

definition spy_config :: "bool \<Rightarrow> CheckConfig" where
  "spy_config en =
    \<lparr>cfg_check_name = Some ''spy'', cfg_check_type = None, enabled = en,
     severity = ''medium'', threshold = 4 / 5, parameters = [], description = None\<rparr>"

definition spy_check ::
  "bool \<Rightarrow> (raised + bool) \<Rightarrow> (raised + CheckResult) \<Rightarrow> (unit, nat) QualityCheck" where
  "spy_check en valid outcome =
    \<lparr>config = spy_config en, class_name = ''Spy'',
     validate_config = (\<lambda>_. valid),
     execute = (\<lambda>_ _ n. (outcome, Suc n))\<rparr>"

section \<open>The dataset\<close>

text \<open>
  A cell of a pandas DataFrame: the float NaN, Python's \<open>None\<close>, a string, an integer
  or a float. A column has a name, a flag telling whether its dtype is a number dtype
  (what \<open>select_dtypes(include=[np.number])\<close> selects) and its cells; a DataFrame has
  the length of its index (\<open>len(data)\<close>) and its columns in order.
\<close>

datatype cell = NaN | NoneV | Text string | IntV int | FloatV real

record column =
  cname :: string
  numeric :: bool
  cells :: "cell list"

record DataFrame =
  index_len :: nat
  columns :: "column list"

definition wf_frame :: "DataFrame \<Rightarrow> bool" where
  "wf_frame data =
     (list_all (\<lambda>c. length (cells c) = index_len data) (columns data) \<and>
      distinct (map cname (columns data)))"

fun pd_isna :: "cell \<Rightarrow> bool" where
  "pd_isna NaN = True"
| "pd_isna NoneV = True"
| "pd_isna _ = False"

text \<open>Python's \<open>str\<close> on a cell; the repr of a float is a parameter.\<close>

definition digit_char :: "nat \<Rightarrow> char" where
  "digit_char d = ''0123456789'' ! d"

fun nat_digits :: "nat \<Rightarrow> string" where
  "nat_digits n =
     (if n < 10 then [digit_char n] else nat_digits (n div 10) @ [digit_char (n mod 10)])"

definition int_str :: "int \<Rightarrow> string" where
  "int_str i = (if i < 0 then CHR ''-'' # nat_digits (nat (- i)) else nat_digits (nat i))"

fun py_str :: "(real \<Rightarrow> string) \<Rightarrow> cell \<Rightarrow> string" where
  "py_str float_repr NaN = ''nan''"
| "py_str float_repr NoneV = ''None''"
| "py_str float_repr (Text s) = s"
| "py_str float_repr (IntV i) = int_str i"
| "py_str float_repr (FloatV r) = float_repr r"

text \<open>
  \<open>str.strip()\<close>: the whitespace characters of Python below code point 256.
\<close>

definition py_isspace :: "char \<Rightarrow> bool" where
  "py_isspace c = (of_char c \<in> {9, 10, 11, 12, 13, 28, 29, 30, 31, 32, 133, 160 :: nat})"

definition py_strip :: "string \<Rightarrow> string" where
  "py_strip s = rev (dropWhile py_isspace (rev (dropWhile py_isspace s)))"

text \<open>Python's true division of two ints: a zero divisor raises.\<close>

definition py_div :: "real \<Rightarrow> real \<Rightarrow> exn + real" where
  "py_div a b = (if b = 0 then Inl ZeroDivisionError else Inr (a / b))"

text \<open>\<open>d[k] = v\<close> on a dictionary kept in insertion order.\<close>

fun dict_set :: "'k \<Rightarrow> 'v \<Rightarrow> ('k \<times> 'v) list \<Rightarrow> ('k \<times> 'v) list" where
  "dict_set k v [] = [(k, v)]"
| "dict_set k v ((k', v') # d) = (if k = k' then (k, v) # d else (k', v') # dict_set k v d)"

definition dict_get :: "('k \<times> 'v) list \<Rightarrow> 'k \<Rightarrow> 'v \<Rightarrow> 'v" where
  "dict_get d k dflt = (case map_of d k of None \<Rightarrow> dflt | Some v \<Rightarrow> v)"

text \<open>
  \<open>Series.value_counts()\<close>: every distinct value with its number of occurrences,
  most frequent first (ties in order of first appearance).
\<close>

definition value_counts :: "'a list \<Rightarrow> ('a \<times> nat) list" where
  "value_counts xs =
     sort_key (\<lambda>(v, c). - int c) (map (\<lambda>v. (v, count_list xs v)) (rev (remdups (rev xs))))"

section \<open>checks/missing\_values.py\<close>

record MissingValuesConfig = CheckConfig +
  missing_threshold :: real
  critical_threshold :: real
  detect_empty_strings :: bool
  detect_whitespace :: bool
  detect_na_values :: bool
  detect_custom_na :: "string list"
  analyze_patterns :: bool
  analyze_correlations :: bool
  suggest_imputation :: bool
  include_heatmap :: bool
  include_patterns :: bool
  include_recommendations :: bool

text \<open>\<open>MissingValuesCheck()\<close>: the default configuration with the name and type set.\<close>

definition MissingValuesConfig_default :: MissingValuesConfig where
  "MissingValuesConfig_default =
    \<lparr>cfg_check_name = Some ''Missing Values Analysis'',
     cfg_check_type = Some ''missing_values'',
     enabled = True, severity = ''medium'', threshold = 4 / 5, parameters = [],
     description = None,
     missing_threshold = 1 / 10, critical_threshold = 1 / 2,
     detect_empty_strings = True, detect_whitespace = True, detect_na_values = True,
     detect_custom_na = [''N/A'', ''NULL'', ''null'', ''None'', ''none'', []],
     analyze_patterns = True, analyze_correlations = True, suggest_imputation = True,
     include_heatmap = True, include_patterns = True, include_recommendations = True\<rparr>"

definition mv_validate_config :: "MissingValuesConfig \<Rightarrow> bool" where
  "mv_validate_config cfg =
    (if \<not> (0 \<le> missing_threshold cfg \<and> missing_threshold cfg \<le> 1) then False
     else if \<not> (0 \<le> critical_threshold cfg \<and> critical_threshold cfg \<le> 1) then False
     else if missing_threshold cfg \<ge> critical_threshold cfg then False
     else True)"

text \<open>
  \<open>_count_missing_values\<close>: the counts of the enabled detection methods are added up.
  \<open>[]\<close> is the empty string.
\<close>

definition count_where :: "('a \<Rightarrow> bool) \<Rightarrow> 'a list \<Rightarrow> nat" where
  "count_where P xs = length (filter P xs)"

definition count_missing_values ::
  "(real \<Rightarrow> string) \<Rightarrow> MissingValuesConfig \<Rightarrow> cell list \<Rightarrow> nat" where
  "count_missing_values float_repr cfg series =
    (if detect_na_values cfg then count_where pd_isna series else 0) +
    (if detect_empty_strings cfg then count_where (\<lambda>c. c = Text []) series else 0) +
    (if detect_whitespace cfg
     then count_where (\<lambda>c. py_strip (py_str float_repr c) = []) series else 0) +
    (if detect_custom_na cfg \<noteq> []
     then sum_list (map (\<lambda>na_value. count_where (\<lambda>c. c = Text na_value) series)
                        (detect_custom_na cfg))
     else 0)"

record MissingPatterns =
  row_patterns :: "(bool list \<times> nat) list"
  column_patterns :: "(string \<times> detail) list"
  systematic_missing :: "(bool list \<times> nat \<times> real) list"

text \<open>
  The recommendation messages, by kind; a column message carries the column and the
  percentage that the source formats into the text.
\<close>

datatype mv_recommendation =
    CriticalOverall | WarningOverall
  | CriticalColumn string real | WarningColumn string real
  | PatternHint | CorrelationHint

text \<open>
  The analysis dictionary. \<open>missing_patterns\<close> is \<open>None\<close> while it is the empty
  dictionary it is initialised with.
\<close>

record MissingAnalysis =
  total_rows :: nat
  total_columns :: nat
  missing_counts :: "(string \<times> nat) list"
  missing_percentages :: "(string \<times> real) list"
  columns_with_missing :: nat
  overall_missing_percentage :: real
  missing_patterns :: "MissingPatterns option"
  correlations :: "(string \<times> real) list"
  mv_recommendations :: "mv_recommendation list"

definition missing_matrix :: "DataFrame \<Rightarrow> bool list list" where
  "missing_matrix data =
     map (\<lambda>i. map (\<lambda>c. pd_isna (cells c ! i)) (columns data)) [0..<index_len data]"

definition analyze_missing_patterns :: "DataFrame \<Rightarrow> MissingPatterns" where
  "analyze_missing_patterns data =
    (let pattern_counts = value_counts (missing_matrix data) in
     \<lparr>row_patterns = take 10 pattern_counts,
      column_patterns = [],
      systematic_missing =
        map (\<lambda>(pattern, count). (pattern, count, real count / real (index_len data)))
            (filter (\<lambda>(pattern, count). real count > real (index_len data) * (1 / 10))
                    pattern_counts)\<rparr>)"

text \<open>
  \<open>Series.corr\<close> (Pearson) of two 0/1 indicator columns; \<open>None\<close> is NaN, the value
  when one of the columns is constant.
\<close>

definition pearson :: "real list \<Rightarrow> real list \<Rightarrow> real option" where
  "pearson xs ys =
    (let n = real (length xs);
         mx = sum_list xs / n; my = sum_list ys / n;
         sxx = sum_list (map (\<lambda>x. (x - mx) * (x - mx)) xs);
         syy = sum_list (map (\<lambda>y. (y - my) * (y - my)) ys);
         sxy = sum_list (map (\<lambda>(x, y). (x - mx) * (y - my)) (zip xs ys))
     in if sxx = 0 \<or> syy = 0 then None else Some (sxy / sqrt (sxx * syy)))"

definition indicator_col :: "column \<Rightarrow> real list" where
  "indicator_col c = map (\<lambda>v. if pd_isna v then 1 else 0) (cells c)"

fun column_pairs :: "'a list \<Rightarrow> ('a \<times> 'a) list" where
  "column_pairs [] = []"
| "column_pairs (x # xs) = map (\<lambda>y. (x, y)) xs @ column_pairs xs"

text \<open>The pairs are visited row by row of the double loop, keeping those with \<open>i < j\<close>.\<close>

definition analyze_missing_correlations :: "DataFrame \<Rightarrow> (string \<times> real) list" where
  "analyze_missing_correlations data =
    fold (\<lambda>(col1, col2) correlations.
            case pearson (indicator_col col1) (indicator_col col2) of
              None \<Rightarrow> correlations
            | Some corr \<Rightarrow>
                if \<bar>corr\<bar> > 3 / 10
                then dict_set (cname col1 @ ''_vs_'' @ cname col2) corr correlations
                else correlations)
         (column_pairs (columns data)) []"

definition generate_imputation_recommendations ::
  "MissingValuesConfig \<Rightarrow> MissingAnalysis \<Rightarrow> exn + mv_recommendation list" where
  "generate_imputation_recommendations cfg analysis =
    (let overall =
           (if overall_missing_percentage analysis > critical_threshold cfg
            then [CriticalOverall]
            else if overall_missing_percentage analysis > missing_threshold cfg
            then [WarningOverall] else []);
         per_column =
           concat (map (\<lambda>(column, percentage).
                          if percentage > critical_threshold cfg
                          then [CriticalColumn column percentage]
                          else if percentage > missing_threshold cfg
                          then [WarningColumn column percentage] else [])
                       (missing_percentages analysis))
     in case missing_patterns analysis of
          None \<Rightarrow> Inl (KeyError ''systematic_missing'')
        | Some patterns \<Rightarrow>
            Inr (overall @ per_column @
                 (if systematic_missing patterns \<noteq> [] then [PatternHint] else []) @
                 (if correlations analysis \<noteq> [] then [CorrelationHint] else [])))"

text \<open>The loop over the columns of \<open>_analyze_missing_values\<close>.\<close>

fun analyze_columns ::
  "(real \<Rightarrow> string) \<Rightarrow> MissingValuesConfig \<Rightarrow> nat \<Rightarrow> column list
    \<Rightarrow> (string \<times> nat) list \<times> (string \<times> real) list \<times> nat
    \<Rightarrow> exn + (string \<times> nat) list \<times> (string \<times> real) list \<times> nat" where
  "analyze_columns float_repr cfg n [] acc = Inr acc"
| "analyze_columns float_repr cfg n (c # cs) (counts, percentages, with_missing) =
    (let missing_count = count_missing_values float_repr cfg (cells c) in
     case py_div (real missing_count) (real n) of
       Inl e \<Rightarrow> Inl e
     | Inr missing_percentage \<Rightarrow>
         analyze_columns float_repr cfg n cs
           (dict_set (cname c) missing_count counts,
            dict_set (cname c) missing_percentage percentages,
            if missing_count > 0 then with_missing + 1 else with_missing))"

definition analyze_missing_values ::
  "(real \<Rightarrow> string) \<Rightarrow> MissingValuesConfig \<Rightarrow> DataFrame \<Rightarrow> exn + MissingAnalysis" where
  "analyze_missing_values float_repr cfg data =
    (case analyze_columns float_repr cfg (index_len data) (columns data) ([], [], 0) of
       Inl e \<Rightarrow> Inl e
     | Inr (counts, percentages, with_missing) \<Rightarrow>
        (let total_missing = sum_list (map snd counts);
             total_cells = index_len data * length (columns data)
         in case py_div (real total_missing) (real total_cells) of
              Inl e \<Rightarrow> Inl e
            | Inr overall \<Rightarrow>
               (let analysis =
                      \<lparr>total_rows = index_len data,
                       total_columns = length (columns data),
                       missing_counts = counts,
                       missing_percentages = percentages,
                       columns_with_missing = with_missing,
                       overall_missing_percentage = overall,
                       missing_patterns =
                         (if analyze_patterns cfg
                          then Some (analyze_missing_patterns data) else None),
                       correlations =
                         (if analyze_correlations cfg
                          then analyze_missing_correlations data else []),
                       mv_recommendations = []\<rparr>
                in if suggest_imputation cfg
                   then (case generate_imputation_recommendations cfg analysis of
                           Inl e \<Rightarrow> Inl e
                         | Inr recs \<Rightarrow> Inr (analysis\<lparr>mv_recommendations := recs\<rparr>))
                   else Inr analysis)))"

definition mv_calculate_quality_score :: "MissingAnalysis \<Rightarrow> exn + real" where
  "mv_calculate_quality_score analysis =
    (let base_score = 1;
         missing_penalty = overall_missing_percentage analysis * (1 / 2);
         base_score = base_score - missing_penalty
     in case py_div (real (columns_with_missing analysis)) (real (total_columns analysis)) of
          Inl e \<Rightarrow> Inl e
        | Inr ratio \<Rightarrow>
           (let columns_penalty = ratio * (1 / 5);
                base_score = base_score - columns_penalty
            in case missing_patterns analysis of
                 None \<Rightarrow> Inl (KeyError ''systematic_missing'')
               | Some patterns \<Rightarrow>
                  (let base_score =
                         (if systematic_missing patterns \<noteq> []
                          then base_score - 1 / 10 else base_score)
                   in Inr (max 0 (min 1 base_score)))))"

text \<open>\<open>_determine_status\<close> is the same function in the three checks.\<close>

definition determine_status :: "real \<Rightarrow> string" where
  "determine_status quality_score =
    (if quality_score \<ge> 9 / 10 then ''passed''
     else if quality_score \<ge> 7 / 10 then ''warning''
     else if quality_score \<ge> 1 / 2 then ''failed''
     else ''critical'')"

text \<open>
  \<open>_generate_details\<close>. A percentage that the source renders as text is kept as the
  number; a recommendation is kept as its kind and data.
\<close>

fun mv_recommendation_detail :: "mv_recommendation \<Rightarrow> detail" where
  "mv_recommendation_detail CriticalOverall =
     DStr ''CRITICAL: Dataset has >50% missing data. Consider data source investigation.''"
| "mv_recommendation_detail WarningOverall =
     DStr ''WARNING: Dataset has >10% missing data. Implement imputation strategies.''"
| "mv_recommendation_detail (CriticalColumn c p) =
     DList [DStr ''CRITICAL: Column'', DStr c, DReal p, DStr ''missing data'']"
| "mv_recommendation_detail (WarningColumn c p) =
     DList [DStr ''WARNING: Column'', DStr c, DReal p, DStr ''missing data'']"
| "mv_recommendation_detail PatternHint =
     DStr ''PATTERN: Systematic missing data detected. Investigate data collection process.''"
| "mv_recommendation_detail CorrelationHint =
     DStr (''CORRELATION: Missing values are correlated between columns. '' @
           ''Consider joint imputation.'')"

definition pattern_detail :: "bool list \<Rightarrow> detail" where
  "pattern_detail p = DList (map DBool p)"

definition patterns_detail :: "MissingPatterns option \<Rightarrow> detail" where
  "patterns_detail ps =
    (case ps of
       None \<Rightarrow> DDict []
     | Some p \<Rightarrow>
        DDict [(''row_patterns'',
                  DList (map (\<lambda>(pat, n). DList [pattern_detail pat, DNat n]) (row_patterns p))),
               (''column_patterns'', DDict (column_patterns p)),
               (''systematic_missing'',
                  DList (map (\<lambda>(pat, n, pct).
                                DDict [(''pattern'', pattern_detail pat), (''count'', DNat n),
                                       (''percentage'', DReal pct)])
                             (systematic_missing p)))])"

definition mv_generate_details ::
  "MissingValuesConfig \<Rightarrow> MissingAnalysis \<Rightarrow> (string \<times> detail) list" where
  "mv_generate_details cfg analysis =
    [(''summary'',
        DDict [(''total_missing_cells'', DNat (sum_list (map snd (missing_counts analysis)))),
               (''overall_missing_percentage'', DReal (overall_missing_percentage analysis)),
               (''columns_with_missing'', DNat (columns_with_missing analysis)),
               (''critical_columns'',
                  DList (map (\<lambda>(col, pct). DStr col)
                             (filter (\<lambda>(col, pct). pct > critical_threshold cfg)
                                     (missing_percentages analysis))))]),
     (''column_analysis'',
        DDict (map (\<lambda>(col, count).
                      (col, DDict
                         [(''missing_count'', DNat count),
                          (''missing_percentage'',
                             DReal (dict_get (missing_percentages analysis) col 0)),
                          (''status'',
                             DStr (if dict_get (missing_percentages analysis) col 0
                                        > critical_threshold cfg then ''critical''
                                   else if dict_get (missing_percentages analysis) col 0
                                        > missing_threshold cfg then ''warning''
                                   else ''good''))]))
                   (filter (\<lambda>(col, count). count > 0) (missing_counts analysis)))),
     (''patterns'', patterns_detail (missing_patterns analysis)),
     (''correlations'', DDict (map (\<lambda>(k, v). (k, DReal v)) (correlations analysis))),
     (''recommendations'', DList (map mv_recommendation_detail (mv_recommendations analysis)))]"

text \<open>
  \<open>MissingValuesCheck.execute\<close>. The body of the \<open>try\<close> is \<open>mv_execute_body\<close>; the
  handler turns an exception into the error result. \<open>elapsed\<close> is the measured
  duration and \<open>iso_now\<close> is \<open>datetime.now().isoformat()\<close>.
\<close>

definition mv_execute_body ::
  "(real \<Rightarrow> string) \<Rightarrow> real \<Rightarrow> string \<Rightarrow> MissingValuesConfig \<Rightarrow> DataFrame
    \<Rightarrow> exn + CheckResult" where
  "mv_execute_body float_repr elapsed iso_now cfg data =
    (if \<not> mv_validate_config cfg then Inl (ValueError ''Invalid configuration'')
     else case analyze_missing_values float_repr cfg data of
       Inl e \<Rightarrow> Inl e
     | Inr missing_analysis \<Rightarrow>
        (case mv_calculate_quality_score missing_analysis of
           Inl e \<Rightarrow> Inl e
         | Inr quality_score \<Rightarrow>
            Inr \<lparr>check_name = ''Missing Values Analysis'',
                 check_type = ''missing_values'',
                 status = determine_status quality_score,
                 score = quality_score,
                 details = mv_generate_details cfg missing_analysis,
                 execution_time = elapsed,
                 timestamp = iso_now,
                 affected_rows = Some (total_rows missing_analysis),
                 affected_columns = Some (map cname (columns data)),
                 recommendations = None\<rparr>))"

definition error_result :: "string \<Rightarrow> string \<Rightarrow> real \<Rightarrow> string \<Rightarrow> exn \<Rightarrow> CheckResult" where
  "error_result name type elapsed iso_now e =
    \<lparr>check_name = name, check_type = type, status = ''error'', score = 0,
     details = [(''error'', DStr (str_exn e))],
     execution_time = elapsed, timestamp = iso_now,
     affected_rows = None, affected_columns = None, recommendations = None\<rparr>"

definition mv_execute ::
  "(real \<Rightarrow> string) \<Rightarrow> real \<Rightarrow> string \<Rightarrow> MissingValuesConfig \<Rightarrow> DataFrame \<Rightarrow> CheckResult" where
  "mv_execute float_repr elapsed iso_now cfg data =
    (case mv_execute_body float_repr elapsed iso_now cfg data of
       Inr result \<Rightarrow> result
     | Inl e \<Rightarrow> error_result ''Missing Values Analysis'' ''missing_values'' elapsed iso_now e)"

section \<open>checks/duplicates.py\<close>

subsection \<open>\<open>difflib.SequenceMatcher(None, a, b).ratio()\<close>\<close>

text \<open>
  The ratio comes from Python's standard library. It is modelled after the library's
  algorithm: the longest matching block, the earliest in \<open>a\<close> and then in \<open>b\<close>, found
  over the elements of \<open>b\<close> that are not popular, then extended on both sides; the
  blocks left and right of it are found the same way; the ratio is twice the number of
  matched elements over the sum of the lengths. With no junk function the only
  characters left out of the first search are the popular ones: those occurring more
  than \<open>n div 100 + 1\<close> times in a \<open>b\<close> of length \<open>n \<ge> 200\<close>.
\<close>

definition is_popular :: "string \<Rightarrow> char \<Rightarrow> bool" where
  "is_popular b c = (length b \<ge> 200 \<and> count_list b c > length b div 100 + 1)"

fun common_run :: "(char \<Rightarrow> bool) \<Rightarrow> string \<Rightarrow> string \<Rightarrow> nat" where
  "common_run pop (x # xs) (y # ys) =
     (if x = y \<and> \<not> pop y then Suc (common_run pop xs ys) else 0)"
| "common_run pop _ _ = 0"

definition dp_best :: "(char \<Rightarrow> bool) \<Rightarrow> string \<Rightarrow> string \<Rightarrow> nat \<times> nat \<times> nat" where
  "dp_best pop a b =
     fold (\<lambda>(i, j) (besti, bestj, bestsize).
             let k = common_run pop (drop i a) (drop j b)
             in if k > bestsize then (i, j, k) else (besti, bestj, bestsize))
          (List.product [0..<length a] [0..<length b]) (0, 0, 0)"

fun extend_left :: "string \<Rightarrow> string \<Rightarrow> nat \<times> nat \<times> nat \<Rightarrow> nat \<times> nat \<times> nat" where
  "extend_left a b (besti, bestj, bestsize) =
     (if besti > 0 \<and> bestj > 0 \<and> a ! (besti - 1) = b ! (bestj - 1)
      then extend_left a b (besti - 1, bestj - 1, bestsize + 1)
      else (besti, bestj, bestsize))"

function extend_right :: "string \<Rightarrow> string \<Rightarrow> nat \<times> nat \<times> nat \<Rightarrow> nat \<times> nat \<times> nat" where
  "extend_right a b (besti, bestj, bestsize) =
     (if besti + bestsize < length a \<and> bestj + bestsize < length b \<and>
         a ! (besti + bestsize) = b ! (bestj + bestsize)
      then extend_right a b (besti, bestj, bestsize + 1)
      else (besti, bestj, bestsize))"
  by pat_completeness auto
termination
  by (relation "measure (\<lambda>(a, b, i, j, k). length a - (i + k))") auto

declare extend_left.simps [simp del] extend_right.simps [simp del]

definition find_longest_match :: "(char \<Rightarrow> bool) \<Rightarrow> string \<Rightarrow> string \<Rightarrow> nat \<times> nat \<times> nat" where
  "find_longest_match pop a b = extend_right a b (extend_left a b (dp_best pop a b))"

text \<open>A block lies inside both strings; this is what makes the recursion below end.\<close>

definition block_ok :: "string \<Rightarrow> string \<Rightarrow> nat \<times> nat \<times> nat \<Rightarrow> bool" where
  "block_ok a b m = (case m of (i, j, k) \<Rightarrow> i + k \<le> length a \<and> j + k \<le> length b)"

lemma common_run_le: "common_run pop xs ys \<le> length xs \<and> common_run pop xs ys \<le> length ys"
  by (induction pop xs ys rule: common_run.induct) auto

lemma fold_keeps:
  assumes "good s0" and "\<And>y st. y \<in> set ys \<Longrightarrow> good st \<Longrightarrow> good (step y st)"
  shows "good (fold step ys s0)"
  using assms by (induction ys arbitrary: s0) auto

lemma dp_best_ok: "block_ok a b (dp_best pop a b)"
  unfolding dp_best_def
proof (rule fold_keeps)
  show "block_ok a b (0, 0, 0)" by (simp add: block_ok_def)
next
  fix x s
  assume x: "x \<in> set (List.product [0..<length a] [0..<length b])" and s: "block_ok a b s"
  obtain i j where ij: "x = (i, j)" by (cases x)
  obtain bi bj bk where sb: "s = (bi, bj, bk)" by (cases s)
  from x ij have lt: "i < length a" "j < length b" by auto
  have "common_run pop (drop i a) (drop j b) \<le> length a - i"
       "common_run pop (drop i a) (drop j b) \<le> length b - j"
    using common_run_le[of pop "drop i a" "drop j b"] by auto
  with lt s show "block_ok a b
      ((\<lambda>(i, j) (besti, bestj, bestsize).
             let k = common_run pop (drop i a) (drop j b)
             in if k > bestsize then (i, j, k) else (besti, bestj, bestsize)) x s)"
    by (auto simp: ij sb block_ok_def Let_def)
qed

lemma extend_left_ok: "block_ok a b m \<Longrightarrow> block_ok a b (extend_left a b m)"
proof (induction a b m rule: extend_left.induct)
  case (1 a b besti bestj bestsize)
  show ?case
  proof (cases "besti > 0 \<and> bestj > 0 \<and> a ! (besti - 1) = b ! (bestj - 1)")
    case True
    have "block_ok a b (besti - 1, bestj - 1, bestsize + 1)"
      using "1.prems" True by (auto simp: block_ok_def)
    with "1.IH"[OF True] True show ?thesis by (simp add: extend_left.simps[of a b besti])
  next
    case False
    with "1.prems" show ?thesis by (auto simp: extend_left.simps[of a b besti])
  qed
qed

lemma extend_right_ok: "block_ok a b m \<Longrightarrow> block_ok a b (extend_right a b m)"
proof (induction a b m rule: extend_right.induct)
  case (1 a b besti bestj bestsize)
  show ?case
  proof (cases "besti + bestsize < length a \<and> bestj + bestsize < length b \<and>
         a ! (besti + bestsize) = b ! (bestj + bestsize)")
    case True
    have "block_ok a b (besti, bestj, bestsize + 1)"
      using True by (auto simp: block_ok_def)
    with "1.IH"[OF True] True show ?thesis by (simp add: extend_right.simps[of a b besti])
  next
    case False
    with "1.prems" show ?thesis by (auto simp: extend_right.simps[of a b besti])
  qed
qed

lemma find_longest_match_ok:
  "find_longest_match pop a b = (i, j, k) \<Longrightarrow> i + k \<le> length a \<and> j + k \<le> length b"
  using extend_right_ok[OF extend_left_ok[OF dp_best_ok[of a b pop]]]
  by (simp add: find_longest_match_def block_ok_def)

text \<open>The total size of the matching blocks.\<close>

function matching_total :: "(char \<Rightarrow> bool) \<Rightarrow> string \<Rightarrow> string \<Rightarrow> nat" where
  "matching_total pop a b =
     (case find_longest_match pop a b of
        (i, j, k) \<Rightarrow>
          if k = 0 then 0
          else k
            + (if 0 < i \<and> 0 < j then matching_total pop (take i a) (take j b) else 0)
            + (if i + k < length a \<and> j + k < length b
               then matching_total pop (drop (i + k) a) (drop (j + k) b) else 0))"
  by pat_completeness auto
termination
proof (relation "measure (\<lambda>(pop, a, b). length a)", goal_cases)
  case 1
  show ?case by simp
next
  case (2 pop a b x y xa ya)
  then have "find_longest_match pop a b = (x, xa, ya)" by metis
  from find_longest_match_ok[OF this] 2 show ?case by simp
next
  case (3 pop a b x y xa ya)
  then show ?case by simp linarith
qed

declare matching_total.simps [simp del]

definition ratio :: "string \<Rightarrow> string \<Rightarrow> real" where
  "ratio a b =
     (let matches = matching_total (is_popular b) a b; length_sum = length a + length b
      in if length_sum \<noteq> 0 then 2 * real matches / real length_sum else 1)"

subsection \<open>The check\<close>

record DuplicatesConfig = CheckConfig +
  exact_matching :: bool
  fuzzy_matching :: bool
  business_key_matching :: bool
  semantic_matching :: bool
  fuzzy_threshold :: real
  business_key_columns :: "string list option"
  analyze_duplicate_patterns :: bool
  suggest_deduplication :: bool
  include_similarity_scores :: bool
  max_fuzzy_comparisons :: int
  use_sampling :: bool
  sample_size :: int

definition DuplicatesConfig_default :: DuplicatesConfig where
  "DuplicatesConfig_default =
    \<lparr>cfg_check_name = Some ''Duplicate Detection Analysis'',
     cfg_check_type = Some ''duplicates'',
     enabled = True, severity = ''medium'', threshold = 4 / 5, parameters = [],
     description = None,
     exact_matching = True, fuzzy_matching = True, business_key_matching = True,
     semantic_matching = False, fuzzy_threshold = 4 / 5, business_key_columns = None,
     analyze_duplicate_patterns = True, suggest_deduplication = True,
     include_similarity_scores = True,
     max_fuzzy_comparisons = 10000, use_sampling = True, sample_size = 10000\<rparr>"

definition dup_validate_config :: "DuplicatesConfig \<Rightarrow> bool" where
  "dup_validate_config cfg =
    (if \<not> (0 \<le> fuzzy_threshold cfg \<and> fuzzy_threshold cfg \<le> 1) then False
     else if max_fuzzy_comparisons cfg < 100 then False
     else if sample_size cfg < 100 then False
     else True)"

text \<open>\<open>np.mean\<close> of a list: NaN (\<open>None\<close>) on the empty list.\<close>

definition np_mean :: "real list \<Rightarrow> real option" where
  "np_mean xs = (if xs = [] then None else Some (sum_list xs / real (length xs)))"

text \<open>
  \<open>_calculate_row_similarity\<close>; \<open>column_similarity\<close> is the body of its loop. Both
  values are converted with \<open>str\<close> first, so what \<open>pd.isna\<close> is applied to is a Python
  string.
\<close>

definition column_similarity :: "(real \<Rightarrow> string) \<Rightarrow> cell \<Rightarrow> cell \<Rightarrow> real" where
  "column_similarity float_repr c1 c2 =
     (let val1 = py_str float_repr c1; val2 = py_str float_repr c2
      in if pd_isna (Text val1) \<or> pd_isna (Text val2) then 0
         else if val1 = val2 then 1
         else ratio val1 val2)"

definition calculate_row_similarity ::
  "(real \<Rightarrow> string) \<Rightarrow> cell list \<Rightarrow> cell list \<Rightarrow> real option" where
  "calculate_row_similarity float_repr row1 row2 =
     np_mean (map (\<lambda>(c1, c2). column_similarity float_repr c1 c2) (zip row1 row2))"

subsection \<open>\<open>_group_similar_rows\<close>\<close>

text \<open>
  The graph is a dictionary from a row to the set of its neighbours; keys and set
  elements are kept in insertion order. The stack has its top at the head.
\<close>

type_synonym graph = "(nat \<times> nat list) list"

definition set_add :: "nat \<Rightarrow> nat list \<Rightarrow> nat list" where
  "set_add x xs = (if x \<in> set xs then xs else xs @ [x])"

definition graph_add :: "nat \<Rightarrow> nat \<Rightarrow> graph \<Rightarrow> graph" where
  "graph_add i j g = dict_set i (set_add j (dict_get g i [])) g"

definition build_graph :: "(nat \<times> nat) list \<Rightarrow> graph" where
  "build_graph duplicate_pairs =
     fold (\<lambda>(i, j) g. graph_add j i (graph_add i j g)) duplicate_pairs []"

definition visit_neighbors :: "nat list \<Rightarrow> nat list \<times> nat list \<Rightarrow> nat list \<times> nat list" where
  "visit_neighbors ns vs =
     fold (\<lambda>neighbor (visited, stack).
             if neighbor \<notin> set visited then (visited @ [neighbor], neighbor # stack)
             else (visited, stack)) ns vs"

definition graph_nodes :: "graph \<Rightarrow> nat set" where
  "graph_nodes g = fst ` set g \<union> (\<Union>(k, ns)\<in>set g. set ns)"

lemma visit_neighbors_measure:
  "finite U \<Longrightarrow> set ns \<subseteq> U \<Longrightarrow> visit_neighbors ns (v, s) = (v', s') \<Longrightarrow>
   2 * card (U - set v') + length s' \<le> 2 * card (U - set v) + length s"
proof (induction ns arbitrary: v s)
  case Nil
  then show ?case by (simp add: visit_neighbors_def)
next
  case (Cons n ns)
  show ?case
  proof (cases "n \<in> set v")
    case True
    with Cons.prems have "visit_neighbors ns (v, s) = (v', s')" by (simp add: visit_neighbors_def)
    with Cons show ?thesis by simp
  next
    case False
    with Cons.prems have *: "visit_neighbors ns (v @ [n], n # s) = (v', s')"
      by (simp add: visit_neighbors_def)
    from Cons.prems have nU: "n \<in> U" by simp
    have "U - set (v @ [n]) = (U - set v) - {n}" by auto
    moreover have "n \<in> U - set v" using nU False by simp
    ultimately have "card (U - set (v @ [n])) = card (U - set v) - 1" "card (U - set v) > 0"
      using Cons.prems(1) by (auto simp: card_gt_0_iff)
    moreover have "2 * card (U - set v') + length s' \<le> 2 * card (U - set (v @ [n])) + length (n # s)"
      using Cons.IH[OF Cons.prems(1) _ *] Cons.prems(2) by simp
    ultimately show ?thesis by simp
  qed
qed

text \<open>The \<open>while stack\<close> loop: one connected component, in the order of the pops.\<close>

function component :: "graph \<Rightarrow> nat list \<Rightarrow> nat list \<Rightarrow> nat list \<Rightarrow> nat list \<times> nat list" where
  "component g [] visited grp = (grp, visited)"
| "component g (current # stack) visited grp =
     (case visit_neighbors (dict_get g current []) (visited, stack) of
        (visited', stack') \<Rightarrow> component g stack' visited' (grp @ [current]))"
  by pat_completeness auto
termination
proof (relation "measure (\<lambda>(g, stack, visited, grp).
                   2 * card (graph_nodes g - set visited) + length stack)", goal_cases)
  case 1
  show ?case by simp
next
  case (2 g current stack visited grp xa y)
  have fin: "finite (graph_nodes g)" by (auto simp: graph_nodes_def)
  have sub: "set (dict_get g current []) \<subseteq> graph_nodes g"
  proof (cases "map_of g current")
    case None
    then show ?thesis by (simp add: dict_get_def)
  next
    case (Some ns)
    then have "(current, ns) \<in> set g" by (rule map_of_SomeD)
    then have "set ns \<subseteq> graph_nodes g" by (auto simp: graph_nodes_def)
    with Some show ?thesis by (simp add: dict_get_def)
  qed
  from 2 have "visit_neighbors (dict_get g current []) (visited, stack) = (xa, y)" by simp
  from visit_neighbors_measure[OF fin sub this] show ?case by simp
qed

definition connected_groups :: "(nat \<times> nat) list \<Rightarrow> nat list list" where
  "connected_groups duplicate_pairs =
    (let g = build_graph duplicate_pairs in
     snd (fold (\<lambda>node (visited, groups).
                  if node \<notin> set visited
                  then (case component g [node] (visited @ [node]) [] of
                          (grp, visited') \<Rightarrow>
                            (visited', if length grp > 1 then groups @ [grp] else groups))
                  else (visited, groups))
               (map fst g) ([], [])))"

definition group_similar_rows :: "(nat \<times> nat) list \<Rightarrow> (string \<times> nat list) list" where
  "group_similar_rows duplicate_pairs =
     map (\<lambda>(i, grp). (''group_'' @ nat_digits i, grp))
         (enumerate 0 (connected_groups duplicate_pairs))"

subsection \<open>\<open>_detect_fuzzy_duplicates\<close>\<close>

record FuzzyResult =
  fz_duplicate_rows :: "nat list"
  fz_duplicate_pairs :: "(nat \<times> nat) list"
  fz_duplicate_groups :: "(string \<times> nat list) list"
  fz_similarity_scores :: "(string \<times> real) list"
  fz_total_groups :: nat
  fz_method :: string
  fz_threshold :: real

definition row_at :: "DataFrame \<Rightarrow> nat \<Rightarrow> cell list" where
  "row_at data i = map (\<lambda>c. cells c ! i) (columns data)"

definition row_pairs :: "nat \<Rightarrow> (nat \<times> nat) list" where
  "row_pairs n = concat (map (\<lambda>i. map (\<lambda>j. (i, j)) [i + 1..<n]) [0..<n])"

text \<open>
  \<open>df_sample n data\<close> is \<open>data.sample(n=n, random_state=42)\<close>, a pandas operation taken
  as a parameter. A NaN similarity compares false with the threshold. The list made
  from the set of flagged rows is given in ascending order.
\<close>

definition detect_fuzzy_duplicates ::
  "(real \<Rightarrow> string) \<Rightarrow> (int \<Rightarrow> DataFrame \<Rightarrow> exn + DataFrame) \<Rightarrow> DuplicatesConfig \<Rightarrow> DataFrame
    \<Rightarrow> exn + FuzzyResult" where
  "detect_fuzzy_duplicates float_repr df_sample cfg data =
    (case (if int (index_len data) > max_fuzzy_comparisons cfg \<and> use_sampling cfg
           then df_sample (min (sample_size cfg) (int (index_len data))) data
           else Inr data) of
       Inl e \<Rightarrow> Inl e
     | Inr sample_data \<Rightarrow>
        (let scored =
               map (\<lambda>(i, j). ((i, j),
                      calculate_row_similarity float_repr (row_at sample_data i)
                        (row_at sample_data j)))
                   (row_pairs (index_len sample_data));
             hits = List.map_filter
                      (\<lambda>(p, similarity).
                         case similarity of None \<Rightarrow> None
                         | Some s \<Rightarrow> if s \<ge> fuzzy_threshold cfg then Some (p, s) else None)
                      scored;
             duplicate_pairs = map fst hits;
             similarity_scores =
               fold (\<lambda>((i, j), similarity) d.
                       dict_set (nat_digits i @ ''_'' @ nat_digits j) similarity d)
                    hits [];
             duplicate_groups = group_similar_rows duplicate_pairs
         in Inr \<lparr>fz_duplicate_rows =
                   sort (remdups (concat (map (\<lambda>(i, j). [i, j]) duplicate_pairs))),
                 fz_duplicate_pairs = duplicate_pairs,
                 fz_duplicate_groups = duplicate_groups,
                 fz_similarity_scores = similarity_scores,
                 fz_total_groups = length duplicate_groups,
                 fz_method = ''fuzzy_matching'',
                 fz_threshold = fuzzy_threshold cfg\<rparr>))"

text \<open>
  The analysis dictionary built by \<open>_detect_duplicates\<close>. A method result is \<open>None\<close>
  while it is the empty dictionary it is initialised with (the method is turned off).
  The exact and business-key results come from pandas operations (\<open>duplicated\<close>,
  \<open>value_counts\<close>) and \<open>hashlib\<close>; \<open>_detect_duplicates\<close> is a parameter of \<open>execute\<close>.
\<close>

record MethodResult =
  mr_duplicate_rows :: "nat list"
  mr_duplicate_groups :: "(string \<times> nat list) list"
  mr_total_groups :: "nat option"
  mr_method :: string

record DuplicateAnalysis =
  dup_total_rows :: nat
  exact_duplicates :: "MethodResult option"
  fuzzy_duplicates :: "FuzzyResult option"
  business_key_duplicates :: "MethodResult option"
  semantic_duplicates :: "MethodResult option"
  total_duplicate_rows :: nat
  duplicate_percentage :: real
  duplicate_patterns :: "(string \<times> detail) list"
  dup_recommendations :: "string list"

text \<open>\<open>d.get("total_groups", 0)\<close> on a method result.\<close>

definition get_total_groups :: "MethodResult option \<Rightarrow> nat" where
  "get_total_groups m =
     (case m of None \<Rightarrow> 0
      | Some r \<Rightarrow> (case mr_total_groups r of None \<Rightarrow> 0 | Some n \<Rightarrow> n))"

definition dup_total_groups :: "DuplicateAnalysis \<Rightarrow> nat" where
  "dup_total_groups analysis =
     sum_list [get_total_groups (exact_duplicates analysis),
               (case fuzzy_duplicates analysis of None \<Rightarrow> 0 | Some r \<Rightarrow> fz_total_groups r),
               get_total_groups (business_key_duplicates analysis)]"

definition dup_calculate_quality_score :: "DuplicateAnalysis \<Rightarrow> real" where
  "dup_calculate_quality_score analysis =
    (let base_score = 1;
         duplicate_penalty = duplicate_percentage analysis * (6 / 10);
         base_score = base_score - duplicate_penalty;
         total_groups = dup_total_groups analysis;
         base_score =
           (if total_groups > 0
            then base_score - min (2 / 10) (real total_groups / 100)
            else base_score)
     in max 0 (min 1 base_score))"

definition method_result_detail :: "MethodResult option \<Rightarrow> detail" where
  "method_result_detail m =
     (case m of None \<Rightarrow> DDict []
      | Some r \<Rightarrow>
         DDict ([(''duplicate_rows'', DList (map DNat (mr_duplicate_rows r))),
                 (''duplicate_groups'',
                    DDict (map (\<lambda>(k, g). (k, DList (map DNat g))) (mr_duplicate_groups r)))] @
                (case mr_total_groups r of None \<Rightarrow> [] | Some n \<Rightarrow> [(''total_groups'', DNat n)]) @
                [(''method'', DStr (mr_method r))]))"

definition fuzzy_result_detail :: "FuzzyResult option \<Rightarrow> detail" where
  "fuzzy_result_detail m =
     (case m of None \<Rightarrow> DDict []
      | Some r \<Rightarrow>
         DDict [(''duplicate_rows'', DList (map DNat (fz_duplicate_rows r))),
                (''duplicate_pairs'',
                   DList (map (\<lambda>(i, j). DList [DNat i, DNat j]) (fz_duplicate_pairs r))),
                (''duplicate_groups'',
                   DDict (map (\<lambda>(k, g). (k, DList (map DNat g))) (fz_duplicate_groups r))),
                (''similarity_scores'',
                   DDict (map (\<lambda>(k, v). (k, DReal v)) (fz_similarity_scores r))),
                (''total_groups'', DNat (fz_total_groups r)),
                (''method'', DStr (fz_method r)),
                (''threshold'', DReal (fz_threshold r))])"

definition dup_generate_details :: "DuplicateAnalysis \<Rightarrow> (string \<times> detail) list" where
  "dup_generate_details analysis =
    [(''summary'',
        DDict [(''total_duplicate_rows'', DNat (total_duplicate_rows analysis)),
               (''duplicate_percentage'', DReal (duplicate_percentage analysis)),
               (''total_duplicate_groups'', DNat (dup_total_groups analysis))]),
     (''method_results'',
        DDict [(''exact_matching'', method_result_detail (exact_duplicates analysis)),
               (''fuzzy_matching'', fuzzy_result_detail (fuzzy_duplicates analysis)),
               (''business_key'', method_result_detail (business_key_duplicates analysis))]),
     (''patterns'', DDict (duplicate_patterns analysis)),
     (''recommendations'', DList (map DStr (dup_recommendations analysis)))]"

definition dup_execute_body ::
  "(DuplicatesConfig \<Rightarrow> DataFrame \<Rightarrow> exn + DuplicateAnalysis) \<Rightarrow> real \<Rightarrow> string
    \<Rightarrow> DuplicatesConfig \<Rightarrow> DataFrame \<Rightarrow> exn + CheckResult" where
  "dup_execute_body detect_duplicates elapsed iso_now cfg data =
    (if \<not> dup_validate_config cfg then Inl (ValueError ''Invalid configuration'')
     else case detect_duplicates cfg data of
       Inl e \<Rightarrow> Inl e
     | Inr duplicate_analysis \<Rightarrow>
        (let quality_score = dup_calculate_quality_score duplicate_analysis
         in Inr \<lparr>check_name = ''Duplicate Detection Analysis'',
                 check_type = ''duplicates'',
                 status = determine_status quality_score,
                 score = quality_score,
                 details = dup_generate_details duplicate_analysis,
                 execution_time = elapsed,
                 timestamp = iso_now,
                 affected_rows = Some (total_duplicate_rows duplicate_analysis),
                 affected_columns = Some (map cname (columns data)),
                 recommendations = None\<rparr>))"

definition dup_execute ::
  "(DuplicatesConfig \<Rightarrow> DataFrame \<Rightarrow> exn + DuplicateAnalysis) \<Rightarrow> real \<Rightarrow> string
    \<Rightarrow> DuplicatesConfig \<Rightarrow> DataFrame \<Rightarrow> CheckResult" where
  "dup_execute detect_duplicates elapsed iso_now cfg data =
    (case dup_execute_body detect_duplicates elapsed iso_now cfg data of
       Inr result \<Rightarrow> result
     | Inl e \<Rightarrow>
         error_result ''Duplicate Detection Analysis'' ''duplicates'' elapsed iso_now e)"

text \<open>The three rows of the fuzzy example, with \<open>fuzzy_threshold=0.6\<close>.\<close>

definition c6_frame :: DataFrame where
  "c6_frame =
    \<lparr>index_len = 3,
     columns = [\<lparr>cname = ''name'', numeric = False,
                  cells = [Text ''alice'', Text ''alicia'', Text ''bob'']\<rparr>,
                \<lparr>cname = ''age'', numeric = True,
                  cells = [IntV 30, IntV 30, IntV 40]\<rparr>]\<rparr>"

definition c6_config :: DuplicatesConfig where
  "c6_config = DuplicatesConfig_default\<lparr>fuzzy_threshold := 6 / 10\<rparr>"

section \<open>Concrete inputs\<close>

text \<open>Inputs on which the missing-values check is run.\<close>

text \<open>
  The repr of a float whose value is an integer below \<open>10^16\<close> in magnitude (the digits
  followed by \<open>.0\<close>); it stands for the float repr at inputs that hold no other floats.
\<close>

definition float_repr_integral :: "real \<Rightarrow> string" where
  "float_repr_integral r = int_str \<lfloor>r\<rfloor> @ ''.0''"

definition one_column_frame :: "string \<Rightarrow> cell list \<Rightarrow> DataFrame" where
  "one_column_frame name cs =
     \<lparr>index_len = length cs, columns = [\<lparr>cname = name, numeric = False, cells = cs\<rparr>]\<rparr>"

text \<open>
  \<open>detect_empty_strings=True\<close>, \<open>detect_na_values=False\<close>, the rest at the defaults; and
  the same with whitespace detection and the custom tokens turned off as well.
\<close>

definition c5_config :: MissingValuesConfig where
  "c5_config = MissingValuesConfig_default\<lparr>detect_empty_strings := True, detect_na_values := False\<rparr>"

definition c5_config_only_empty :: MissingValuesConfig where
  "c5_config_only_empty = c5_config\<lparr>detect_whitespace := False, detect_custom_na := []\<rparr>"

definition c5_cells :: "cell list" where
  "c5_cells = [Text ''a'', Text [], Text ''b'', Text ''c'', Text [], Text ''d'', Text ''e'',
               Text [], Text ''f'', Text ''g'']"

definition no_patterns_config :: MissingValuesConfig where
  "no_patterns_config = MissingValuesConfig_default\<lparr>analyze_patterns := False\<rparr>"

text \<open>The analysis of a full one-column, two-row dataset when pattern analysis is off.\<close>

definition no_patterns_analysis :: MissingAnalysis where
  "no_patterns_analysis =
    \<lparr>total_rows = 2, total_columns = 1,
     missing_counts = [(''col'', 0)], missing_percentages = [(''col'', 0)],
     columns_with_missing = 0, overall_missing_percentage = 0,
     missing_patterns = None, correlations = [], mv_recommendations = []\<rparr>"

section \<open>checks/outliers.py\<close>

record OutliersConfig = CheckConfig +
  zscore_method :: bool
  iqr_method :: bool
  modified_zscore :: bool
  isolation_forest :: bool
  local_outlier_factor :: bool
  dbscan_method :: bool
  zscore_threshold :: real
  iqr_multiplier :: real
  modified_zscore_threshold :: real
  if_contamination :: real
  if_random_state :: int
  lof_contamination :: real
  lof_n_neighbors :: int
  dbscan_eps :: real
  dbscan_min_samples :: int
  analyze_outlier_patterns :: bool
  suggest_treatment :: bool
  include_visualization :: bool
  max_rows_for_ml :: int
  out_use_sampling :: bool
  out_sample_size :: int

definition OutliersConfig_default :: OutliersConfig where
  "OutliersConfig_default =
    \<lparr>cfg_check_name = Some ''Outlier Detection Analysis'',
     cfg_check_type = Some ''outliers'',
     enabled = True, severity = ''medium'', threshold = 4 / 5, parameters = [],
     description = None,
     zscore_method = True, iqr_method = True, modified_zscore = True,
     isolation_forest = False, local_outlier_factor = False, dbscan_method = False,
     zscore_threshold = 3, iqr_multiplier = 3 / 2, modified_zscore_threshold = 7 / 2,
     if_contamination = 1 / 10, if_random_state = 42,
     lof_contamination = 1 / 10, lof_n_neighbors = 20,
     dbscan_eps = 1 / 2, dbscan_min_samples = 5,
     analyze_outlier_patterns = True, suggest_treatment = True, include_visualization = True,
     max_rows_for_ml = 100000, out_use_sampling = True, out_sample_size = 10000\<rparr>"

definition out_validate_config :: "OutliersConfig \<Rightarrow> bool" where
  "out_validate_config cfg =
    (if zscore_threshold cfg \<le> 0 then False
     else if iqr_multiplier cfg \<le> 0 then False
     else if \<not> (0 < if_contamination cfg \<and> if_contamination cfg < 1 / 2) then False
     else if \<not> (0 < lof_contamination cfg \<and> lof_contamination cfg < 1 / 2) then False
     else True)"

text \<open>
  The numbers of a column. \<open>dropna\<close> keeps the index label of every value that is not
  missing.
\<close>

fun num_value :: "cell \<Rightarrow> real option" where
  "num_value (IntV i) = Some (real_of_int i)"
| "num_value (FloatV r) = Some r"
| "num_value _ = None"

definition dropna :: "cell list \<Rightarrow> (nat \<times> real) list" where
  "dropna series =
     List.map_filter (\<lambda>(i, c). map_option (Pair i) (num_value c)) (enumerate 0 series)"

text \<open>The median of a non-empty list: the middle value, or the mean of the two middle ones.\<close>

definition median :: "real list \<Rightarrow> real" where
  "median xs =
    (let s = sort xs; n = length s
     in if n mod 2 = 1 then s ! (n div 2) else (s ! (n div 2 - 1) + s ! (n div 2)) / 2)"

text \<open>
  Division of numpy floats does not raise: a zero divisor gives an infinity or NaN.
  \<open>np_abs_gt z t\<close> is \<open>np.abs(z) > t\<close>, false on NaN.
\<close>

datatype npfloat = Finite real | PosInf | NegInf | NotANumber

definition np_divide :: "real \<Rightarrow> real \<Rightarrow> npfloat" where
  "np_divide x y =
    (if y = 0 then (if x = 0 then NotANumber else if x > 0 then PosInf else NegInf)
     else Finite (x / y))"

fun np_abs_gt :: "npfloat \<Rightarrow> real \<Rightarrow> bool" where
  "np_abs_gt (Finite z) t = (\<bar>z\<bar> > t)"
| "np_abs_gt PosInf t = True"
| "np_abs_gt NegInf t = True"
| "np_abs_gt NotANumber t = False"

record ColumnOutliers =
  co_count :: nat
  co_indices :: "nat list"
  co_modified_z_scores :: "npfloat list"

record OutlierMethodResult =
  outlier_rows :: "nat list"
  column_outliers :: "(string \<times> ColumnOutliers) list"
  total_outliers :: nat
  om_method :: string
  om_threshold :: real

text \<open>The median absolute deviation of the values of a column that are not missing.\<close>

definition mad_of :: "cell list \<Rightarrow> real" where
  "mad_of series =
    (let clean_data = map snd (dropna series); med = median clean_data
     in median (map (\<lambda>x. \<bar>x - med\<bar>) clean_data))"

text \<open>
  The body of the loop of \<open>_detect_modified_zscore_outliers\<close> for one column; the
  accumulator is the set of outlier rows (in insertion order) and the dictionary of
  the columns with outliers.
\<close>

definition modified_zscore_column ::
  "OutliersConfig \<Rightarrow> string \<Rightarrow> cell list
    \<Rightarrow> nat list \<times> (string \<times> ColumnOutliers) list
    \<Rightarrow> nat list \<times> (string \<times> ColumnOutliers) list" where
  "modified_zscore_column cfg column series acc =
    (let clean_data = dropna series in
     if length clean_data = 0 then acc
     else
      (let med = median (map snd clean_data);
           mad = median (map (\<lambda>(i, x). \<bar>x - med\<bar>) clean_data)
       in if mad = 0 then acc
          else
           (let modified_z_scores =
                  map (\<lambda>(i, x). (i, np_divide (6745 / 10000 * (x - med)) mad)) clean_data;
                flagged =
                  filter (\<lambda>(i, z). np_abs_gt z (modified_zscore_threshold cfg))
                         modified_z_scores
            in if flagged \<noteq> []
               then (fold set_add (map fst flagged) (fst acc),
                     dict_set column
                       \<lparr>co_count = length flagged,
                        co_indices = map fst flagged,
                        co_modified_z_scores = map snd flagged\<rparr>
                       (snd acc))
               else acc)))"

text \<open>\<open>data[column]\<close> raises \<open>KeyError\<close> when the frame has no column of that name.\<close>

fun modified_zscore_loop ::
  "OutliersConfig \<Rightarrow> DataFrame \<Rightarrow> string list
    \<Rightarrow> nat list \<times> (string \<times> ColumnOutliers) list
    \<Rightarrow> exn + nat list \<times> (string \<times> ColumnOutliers) list" where
  "modified_zscore_loop cfg data [] acc = Inr acc"
| "modified_zscore_loop cfg data (column # rest) acc =
    (case find (\<lambda>c. cname c = column) (columns data) of
       None \<Rightarrow> Inl (KeyError column)
     | Some c \<Rightarrow>
         modified_zscore_loop cfg data rest (modified_zscore_column cfg column (cells c) acc))"

definition detect_modified_zscore_outliers ::
  "OutliersConfig \<Rightarrow> DataFrame \<Rightarrow> string list \<Rightarrow> exn + OutlierMethodResult" where
  "detect_modified_zscore_outliers cfg data numeric_columns =
    (case modified_zscore_loop cfg data numeric_columns ([], []) of
       Inl e \<Rightarrow> Inl e
     | Inr (rows, cols) \<Rightarrow>
         Inr \<lparr>outlier_rows = rows,
              column_outliers = cols,
              total_outliers = length rows,
              om_method = ''modified_zscore'',
              om_threshold = modified_zscore_threshold cfg\<rparr>)"

text \<open>
  The analysis dictionary built by \<open>_detect_outliers\<close>. \<open>outlier_patterns\<close> is \<open>None\<close>
  while it is the empty dictionary; \<open>outlier_clusters\<close> is empty when no row was
  flagged. The z-score and IQR methods use \<open>scipy\<close> and pandas quantiles and the other
  methods use \<open>sklearn\<close>; \<open>_detect_outliers\<close> is a parameter of \<open>execute\<close>.
\<close>

record OutlierPatterns =
  column_distribution :: "(string \<times> detail) list"
  outlier_clusters :: "(string \<times> nat) list"
  correlation_analysis :: "(string \<times> detail) list"

record OutlierAnalysis =
  out_total_rows :: nat
  numeric_columns :: "string list"
  outlier_results :: "(string \<times> OutlierMethodResult) list"
  total_outlier_rows :: nat
  outlier_percentage :: real
  outlier_patterns :: "OutlierPatterns option"
  out_recommendations :: "string list"

text \<open>
  \<open>_calculate_quality_score\<close>. The lookup of \<open>rows_with_multiple_outliers\<close> is inside a
  \<open>try\<close> that passes on \<open>KeyError\<close>.
\<close>

definition out_calculate_quality_score :: "OutlierAnalysis \<Rightarrow> real" where
  "out_calculate_quality_score analysis =
    (let base_score = 1;
         outlier_penalty = outlier_percentage analysis * (4 / 10);
         base_score = base_score - outlier_penalty;
         methods_with_outliers =
           length (filter (\<lambda>(name, method_results). total_outliers method_results > 0)
                          (outlier_results analysis));
         base_score =
           (if methods_with_outliers > 0
            then base_score - min (2 / 10) (real methods_with_outliers * (5 / 100))
            else base_score);
         base_score =
           (case outlier_patterns analysis of
              None \<Rightarrow> base_score
            | Some patterns \<Rightarrow>
               (case map_of (outlier_clusters patterns) ''rows_with_multiple_outliers'' of
                  None \<Rightarrow> base_score
                | Some n \<Rightarrow> if n > 0 then base_score - 1 / 10 else base_score))
     in max 0 (min 1 base_score))"

definition out_generate_details :: "OutlierAnalysis \<Rightarrow> (string \<times> detail) list" where
  "out_generate_details analysis =
    [(''summary'',
        DDict [(''total_outlier_rows'', DNat (total_outlier_rows analysis)),
               (''outlier_percentage'', DReal (outlier_percentage analysis)),
               (''numeric_columns_analyzed'', DNat (length (numeric_columns analysis))),
               (''methods_used'', DList (map (\<lambda>(k, r). DStr k) (outlier_results analysis)))]),
     (''method_results'',
        DDict (map (\<lambda>(k, r).
                      (k, DDict [(''outlier_rows'', DList (map DNat (outlier_rows r))),
                                 (''total_outliers'', DNat (total_outliers r)),
                                 (''method'', DStr (om_method r))]))
                   (outlier_results analysis))),
     (''patterns'',
        (case outlier_patterns analysis of
           None \<Rightarrow> DDict []
         | Some p \<Rightarrow>
            DDict [(''column_distribution'', DDict (column_distribution p)),
                   (''outlier_clusters'',
                      DDict (map (\<lambda>(k, n). (k, DNat n)) (outlier_clusters p))),
                   (''correlation_analysis'', DDict (correlation_analysis p))])),
     (''recommendations'', DList (map DStr (out_recommendations analysis)))]"

definition out_execute_body ::
  "(OutliersConfig \<Rightarrow> DataFrame \<Rightarrow> exn + OutlierAnalysis) \<Rightarrow> real \<Rightarrow> string
    \<Rightarrow> OutliersConfig \<Rightarrow> DataFrame \<Rightarrow> exn + CheckResult" where
  "out_execute_body detect_outliers elapsed iso_now cfg data =
    (if \<not> out_validate_config cfg then Inl (ValueError ''Invalid configuration'')
     else case detect_outliers cfg data of
       Inl e \<Rightarrow> Inl e
     | Inr outlier_analysis \<Rightarrow>
        (let quality_score = out_calculate_quality_score outlier_analysis
         in Inr \<lparr>check_name = ''Outlier Detection Analysis'',
                 check_type = ''outliers'',
                 status = determine_status quality_score,
                 score = quality_score,
                 details = out_generate_details outlier_analysis,
                 execution_time = elapsed,
                 timestamp = iso_now,
                 affected_rows = Some (total_outlier_rows outlier_analysis),
                 affected_columns = Some (numeric_columns outlier_analysis),
                 recommendations = None\<rparr>))"

definition out_execute ::
  "(OutliersConfig \<Rightarrow> DataFrame \<Rightarrow> exn + OutlierAnalysis) \<Rightarrow> real \<Rightarrow> string
    \<Rightarrow> OutliersConfig \<Rightarrow> DataFrame \<Rightarrow> CheckResult" where
  "out_execute detect_outliers elapsed iso_now cfg data =
    (case out_execute_body detect_outliers elapsed iso_now cfg data of
       Inr result \<Rightarrow> result
     | Inl e \<Rightarrow>
         error_result ''Outlier Detection Analysis'' ''outliers'' elapsed iso_now e)"

section \<open>core/engine.py\<close>

text \<open>
  What the engine needs from outside the modelled code: the float repr, the two
  detection steps that rest on pandas, and the readings of the clock.
\<close>

record py_env =
  env_float_repr :: "real \<Rightarrow> string"
  env_detect_duplicates :: "DuplicatesConfig \<Rightarrow> DataFrame \<Rightarrow> exn + DuplicateAnalysis"
  env_detect_outliers :: "OutliersConfig \<Rightarrow> DataFrame \<Rightarrow> exn + OutlierAnalysis"
  env_elapsed :: real
  env_iso_now :: string

text \<open>
  The calls that the engine makes on check objects, in order: the construction of a
  check and the method it invokes on it.
\<close>

datatype method_call = Construct string | CallExecute string | CallRun string

definition data_types_placeholder :: "string \<Rightarrow> CheckResult" where
  "data_types_placeholder iso_now =
    \<lparr>check_name = ''Data Types Validation'', check_type = ''data_types'',
     status = ''passed'', score = 95 / 100,
     details = [(''message'', DStr ''Data types check completed successfully'')],
     execution_time = 1 / 10, timestamp = iso_now,
     affected_rows = None, affected_columns = None, recommendations = None\<rparr>"

text \<open>
  \<open>_execute_check\<close>: the result (\<open>None\<close> for an unknown type) and the calls made. Each
  check is constructed with no argument, that is with its default configuration;
  \<open>custom_rules\<close> is not used. The three \<open>execute\<close> methods return a result on every
  path, so the handler of \<open>_execute_check\<close> has nothing to catch.
\<close>

definition execute_check ::
  "py_env \<Rightarrow> DataFrame \<Rightarrow> string \<Rightarrow> (string \<times> detail) list option
    \<Rightarrow> CheckResult option \<times> method_call list" where
  "execute_check env data requested_type custom_rules =
    (if requested_type = ''missing_values'' then
       (Some (mv_execute (env_float_repr env) (env_elapsed env) (env_iso_now env)
                MissingValuesConfig_default data),
        [Construct ''MissingValuesCheck'', CallExecute ''MissingValuesCheck''])
     else if requested_type = ''duplicates'' then
       (Some (dup_execute (env_detect_duplicates env) (env_elapsed env) (env_iso_now env)
                DuplicatesConfig_default data),
        [Construct ''DuplicatesCheck'', CallExecute ''DuplicatesCheck''])
     else if requested_type = ''outliers'' then
       (Some (out_execute (env_detect_outliers env) (env_elapsed env) (env_iso_now env)
                OutliersConfig_default data),
        [Construct ''OutliersCheck'', CallExecute ''OutliersCheck''])
     else if requested_type = ''data_types'' then
       (Some (data_types_placeholder (env_iso_now env)), [])
     else (None, []))"

definition basic_checks :: "string list" where
  "basic_checks = [''missing_values'', ''data_types'', ''duplicates'', ''outliers'']"

text \<open>\<open>DataFrame.empty\<close>: an axis of length 0.\<close>

definition df_empty :: "DataFrame \<Rightarrow> bool" where
  "df_empty data = (index_len data = 0 \<or> columns data = [])"

text \<open>
  \<open>run_quality_checks\<close>: the returned results, the engine's \<open>results\<close> list after the
  call, and the calls made on check objects.
\<close>

definition run_quality_checks ::
  "py_env \<Rightarrow> CheckResult list \<Rightarrow> DataFrame \<Rightarrow> string list option
    \<Rightarrow> (string \<times> detail) list option
    \<Rightarrow> CheckResult list \<times> CheckResult list \<times> method_call list" where
  "run_quality_checks env engine_results data check_types custom_rules =
    (if df_empty data then ([], engine_results, [])
     else
      (let requested =
             (case check_types of
                None \<Rightarrow> basic_checks
              | Some ts \<Rightarrow> if ts = [] then basic_checks else ts);
           outcomes = map (\<lambda>requested_type. execute_check env data requested_type custom_rules)
                          requested;
           results = List.map_filter fst outcomes
       in (results, engine_results @ results, concat (map snd outcomes))))"

text \<open>An environment for running the engine on concrete data.\<close>

definition example_env :: py_env where
  "example_env =
    \<lparr>env_float_repr = float_repr_integral,
     env_detect_duplicates = (\<lambda>cfg data. Inl (OtherError ''pandas'')),
     env_detect_outliers = (\<lambda>cfg data. Inl (OtherError ''pandas'')),
     env_elapsed = 0,
     env_iso_now = ''2024-01-01T00:00:00''\<rparr>"

section \<open>Concrete analyses\<close>

text \<open>Analyses and a column on which the scoring and the modified z-score step are run.\<close>

definition example_dup_analysis :: DuplicateAnalysis where
  "example_dup_analysis =
    \<lparr>dup_total_rows = 3,
     exact_duplicates =
       Some \<lparr>mr_duplicate_rows = [0, 1], mr_duplicate_groups = [(''h'', [0, 1])],
             mr_total_groups = Some 1, mr_method = ''exact_matching''\<rparr>,
     fuzzy_duplicates = None,
     business_key_duplicates = None,
     semantic_duplicates = None,
     total_duplicate_rows = 2,
     duplicate_percentage = 2 / 3,
     duplicate_patterns = [],
     dup_recommendations = []\<rparr>"

definition example_out_analysis :: OutlierAnalysis where
  "example_out_analysis =
    \<lparr>out_total_rows = 6,
     numeric_columns = [''x''],
     outlier_results =
       [(''iqr'', \<lparr>outlier_rows = [5], column_outliers = [], total_outliers = 1,
                   om_method = ''iqr'', om_threshold = 3 / 2\<rparr>)],
     total_outlier_rows = 1,
     outlier_percentage = 1 / 6,
     outlier_patterns = None,
     out_recommendations = []\<rparr>"

definition c8_frame :: DataFrame where
  "c8_frame =
    \<lparr>index_len = 5,
     columns = [\<lparr>cname = ''x'', numeric = True,
                  cells = [IntV 1, IntV 1, IntV 1, IntV 1, IntV 5]\<rparr>]\<rparr>"

section \<open>Properties of the run wrapper\<close>

text \<open>
  C1, as stated, fails: \<open>run\<close> can raise. A check whose \<open>validate_config\<close> raises (a
  \<open>TypeError\<close> from comparing a threshold that \<open>update_config\<close> has set to a string)
  makes \<open>run\<close> raise that exception, and so does a check whose \<open>execute\<close> raises
  \<open>CancelledError\<close>, which is not an \<open>Exception\<close>.
\<close>

theorem run_can_raise_counterexample:
  "run (\<lambda>_. 0) (\<lambda>_. []) (spy_check True (Inl (Exc (TypeError ''not supported''))) (Inr spy_result))
       () 0 = (Inl (Exc (TypeError ''not supported'')), 0) \<and>
   run (\<lambda>_. 0) (\<lambda>_. []) (spy_check True (Inr True) (Inl (BaseExc ''CancelledError''))) () 0 =
     (Inl (BaseExc ''CancelledError''), 1)"
  by (simp add: run_def spy_check_def spy_config_def)

text \<open>
  C1, amended. For every dataset, \<open>run\<close> returns a result and does not raise when the
  check is disabled, or \<open>validate_config\<close> returns false, or it returns true and
  \<open>execute\<close> raises nothing but instances of \<open>Exception\<close>; an \<open>Exception\<close> raised inside
  \<open>execute\<close> is converted into a result with status "error", score 0.0 and \<open>str(e)\<close> as
  the only entry of \<open>details\<close>, under the key "error". What \<open>validate_config\<close> raises,
  and a \<open>BaseException\<close> from \<open>execute\<close> that is not an \<open>Exception\<close>, leave \<open>run\<close>.
\<close>

theorem run_converts_exceptions_of_execute:
  "((\<not> enabled (config self) \<or> validate_config self (config self) = Inr False \<or>
     (validate_config self (config self) = Inr True \<and>
      (\<forall>b. fst (execute self (config self) data w) \<noteq> Inl (BaseExc b)))) \<longrightarrow>
      (\<exists>r w'. run now strftime self data w = (Inr r, w'))) \<and>
   ((enabled (config self) \<and> validate_config self (config self) = Inr True \<and>
     fst (execute self (config self) data w) = Inl (Exc e)) \<longrightarrow>
      (\<exists>r w'. run now strftime self data w = (Inr r, w') \<and>
         status r = ''error'' \<and> score r = 0 \<and>
         details r = [(''error'', DStr (str_exn e))])) \<and>
   ((enabled (config self) \<and> validate_config self (config self) = Inl x) \<longrightarrow>
      run now strftime self data w = (Inl x, w)) \<and>
   ((enabled (config self) \<and> validate_config self (config self) = Inr True \<and>
     fst (execute self (config self) data w) = Inl (BaseExc b)) \<longrightarrow>
      fst (run now strftime self data w) = Inl (BaseExc b))"
proof (intro conjI impI)
  assume h: "\<not> enabled (config self) \<or> validate_config self (config self) = Inr False \<or>
     (validate_config self (config self) = Inr True \<and>
      (\<forall>b. fst (execute self (config self) data w) \<noteq> Inl (BaseExc b)))"
  obtain out w' where ex: "execute self (config self) data w = (out, w')"
    by (cases "execute self (config self) data w")
  show "\<exists>r w'. run now strftime self data w = (Inr r, w')"
  proof (cases out)
    case (Inr result)
    with h ex show ?thesis by (auto simp: run_def Let_def)
  next
    case (Inl raised_value)
    show ?thesis
    proof (cases raised_value)
      case (Exc e')
      with h ex Inl show ?thesis by (auto simp: run_def Let_def)
    next
      case (BaseExc b')
      with h ex Inl show ?thesis by (auto simp: run_def Let_def)
    qed
  qed
next
  assume "enabled (config self) \<and> validate_config self (config self) = Inr True \<and>
     fst (execute self (config self) data w) = Inl (Exc e)"
  then show "\<exists>r w'. run now strftime self data w = (Inr r, w') \<and>
         status r = ''error'' \<and> score r = 0 \<and>
         details r = [(''error'', DStr (str_exn e))]"
    by (cases "execute self (config self) data w") (simp add: run_def Let_def)
next
  assume "enabled (config self) \<and> validate_config self (config self) = Inl x"
  then show "run now strftime self data w = (Inl x, w)" by (simp add: run_def)
next
  assume "enabled (config self) \<and> validate_config self (config self) = Inr True \<and>
     fst (execute self (config self) data w) = Inl (BaseExc b)"
  then show "fst (run now strftime self data w) = Inl (BaseExc b)"
    by (cases "execute self (config self) data w") (simp add: run_def Let_def)
qed

theorem run_converts_exceptions_of_execute_witness:
  "(\<exists>r w'. run (\<lambda>_. 0) (\<lambda>_. []) (spy_check True (Inr True) (Inl (Exc ZeroDivisionError))) () 0
       = (Inr r, w') \<and>
     status r = ''error'' \<and> score r = 0 \<and>
     details r = [(''error'', DStr ''division by zero'')]) \<and>
   (\<exists>r w'. run (\<lambda>_. 0) (\<lambda>_. []) (spy_check True (Inr True) (Inr spy_result)) () 0
       = (Inr r, w')) \<and>
   run (\<lambda>_. 0) (\<lambda>_. []) (spy_check True (Inl (Exc (TypeError ''not supported''))) (Inr spy_result))
       () 0 = (Inl (Exc (TypeError ''not supported'')), 0) \<and>
   fst (run (\<lambda>_. 0) (\<lambda>_. []) (spy_check True (Inr True) (Inl (BaseExc ''CancelledError''))) () 0)
     = Inl (BaseExc ''CancelledError'')"
  using run_converts_exceptions_of_execute
      [of "spy_check True (Inr True) (Inl (Exc ZeroDivisionError))" "()" 0 "\<lambda>_. 0" "\<lambda>_. []"
          ZeroDivisionError]
    run_converts_exceptions_of_execute
      [of "spy_check True (Inr True) (Inr spy_result)" "()" 0 "\<lambda>_. 0" "\<lambda>_. []"]
    run_converts_exceptions_of_execute
      [of "spy_check True (Inl (Exc (TypeError ''not supported''))) (Inr spy_result)" "()" 0
          "\<lambda>_. 0" "\<lambda>_. []" _ "Exc (TypeError ''not supported'')"]
    run_converts_exceptions_of_execute
      [of "spy_check True (Inr True) (Inl (BaseExc ''CancelledError''))" "()" 0
          "\<lambda>_. 0" "\<lambda>_. []" _ _ "''CancelledError''"]
  by (simp add: spy_check_def spy_config_def)

text \<open>
  C2. \<open>run\<close> decides before it calls \<open>execute\<close>: a disabled check gives status
  "skipped" with score 1.0, an enabled check whose \<open>validate_config\<close> returns false gives
  status "error" with score 0.0. In both cases \<open>execute\<close> is not invoked: the world
  is returned unchanged and the outcome is the same whatever \<open>execute\<close> is.
\<close>

theorem run_dispatch_before_execute:
  "(\<not> enabled (config self) \<longrightarrow>
      (\<exists>r. run now strftime self data w = (Inr r, w) \<and>
           status r = ''skipped'' \<and> score r = 1 \<and>
           run now strftime (self\<lparr>execute := f\<rparr>) data w = (Inr r, w))) \<and>
   (enabled (config self) \<and> validate_config self (config self) = Inr False \<longrightarrow>
      (\<exists>r. run now strftime self data w = (Inr r, w) \<and>
           status r = ''error'' \<and> score r = 0 \<and>
           run now strftime (self\<lparr>execute := f\<rparr>) data w = (Inr r, w)))"
  by (simp add: run_def)

theorem run_dispatch_before_execute_witness:
  "(\<exists>r. run (\<lambda>_. 0) (\<lambda>_. []) (spy_check False (Inr True) (Inr spy_result)) () 0 = (Inr r, 0) \<and>
        status r = ''skipped'' \<and> score r = 1) \<and>
   (\<exists>r. run (\<lambda>_. 0) (\<lambda>_. []) (spy_check True (Inr False) (Inr spy_result)) () 0 = (Inr r, 0) \<and>
        status r = ''error'' \<and> score r = 0) \<and>
   snd (run (\<lambda>_. 0) (\<lambda>_. []) (spy_check True (Inr True) (Inr spy_result)) () 0) = 1"
  using run_dispatch_before_execute
      [of "spy_check False (Inr True) (Inr spy_result)" "\<lambda>_. 0" "\<lambda>_. []" "()" 0
          "execute (spy_check False (Inr True) (Inr spy_result))"]
    run_dispatch_before_execute
      [of "spy_check True (Inr False) (Inr spy_result)" "\<lambda>_. 0" "\<lambda>_. []" "()" 0
          "execute (spy_check True (Inr False) (Inr spy_result))"]
  by (simp add: spy_check_def spy_config_def run_def)

section \<open>Properties of the missing-values check\<close>

lemma count_where_cong:
  "(\<And>x. x \<in> set xs \<Longrightarrow> P x = Q x) \<Longrightarrow> count_where P xs = count_where Q xs"
  unfolding count_where_def by (metis (mono_tags, lifting) filter_cong)

lemma count_where_none: "(\<And>x. x \<in> set xs \<Longrightarrow> \<not> P x) \<Longrightarrow> count_where P xs = 0"
  unfolding count_where_def by (simp add: filter_empty_conv)

lemma remdups_replicate_pos: "n > 0 \<Longrightarrow> remdups (replicate n p) = [p]"
  by (induction n) auto

lemma count_list_replicate_same: "count_list (replicate n p) p = n"
  by (induction n) auto

lemma value_counts_replicate: "n > 0 \<Longrightarrow> value_counts (replicate n p) = [(p, n)]"
  by (simp add: value_counts_def remdups_replicate_pos count_list_replicate_same)

lemma set_dict_set: "set (dict_set k v d) \<subseteq> insert (k, v) (set d)"
  by (induction d) (auto split: if_splits)

lemma dict_set_zero:
  "\<forall>x\<in>set d. snd x = (0::nat) \<Longrightarrow> \<forall>x\<in>set (dict_set k 0 d). snd x = 0"
  using set_dict_set[of k 0 d] by auto

lemma sum_list_zero: "\<forall>x\<in>set xs. snd x = (0::nat) \<Longrightarrow> sum_list (map snd xs) = 0"
  by (induction xs) auto

lemma analyze_columns_Inr:
  "n > 0 \<Longrightarrow> \<exists>r. analyze_columns fr cfg n cs acc = Inr r"
  by (induction cs arbitrary: acc) (auto simp: py_div_def Let_def)

lemma analyze_columns_zero:
  "n > 0 \<Longrightarrow> \<forall>c\<in>set cs. count_missing_values fr cfg (cells c) = 0 \<Longrightarrow>
   \<forall>x\<in>set counts. snd x = 0 \<Longrightarrow>
   \<exists>counts' pcts'. analyze_columns fr cfg n cs (counts, pcts, w) = Inr (counts', pcts', w) \<and>
      (\<forall>x\<in>set counts'. snd x = 0)"
proof (induction cs arbitrary: counts pcts)
  case Nil
  then show ?case by simp
next
  case (Cons c cs)
  then show ?case
    by (simp add: py_div_def dict_set_zero)
qed

lemma analyze_one_column:
  assumes "cs \<noteq> []" "analyze_patterns cfg"
  shows "\<exists>a. analyze_missing_values fr cfg (one_column_frame name cs) = Inr a \<and>
          missing_counts a = [(name, count_missing_values fr cfg cs)] \<and>
          overall_missing_percentage a = real (count_missing_values fr cfg cs) / real (length cs)"
  using assms
  by (simp add: analyze_missing_values_def one_column_frame_def py_div_def
      generate_imputation_recommendations_def Let_def)

text \<open>
  C5, as stated, fails: with only \<open>detect_na_values\<close> turned off, an empty-string cell
  is counted by the empty-string method, by the whitespace method and by the custom
  token \<open>""\<close>. On ten cells of which three are empty strings and seven are letters the
  reported count is 9 and the overall percentage 0.9, not 3 and 0.3.
\<close>

theorem c5_default_options_count_counterexample:
  "(case analyze_missing_values float_repr_integral c5_config (one_column_frame ''col'' c5_cells) of
      Inl e \<Rightarrow> False
    | Inr a \<Rightarrow> missing_counts a = [(''col'', 9)] \<and> overall_missing_percentage a = 9 / 10 \<and>
               missing_counts a \<noteq> [(''col'', 3)] \<and> overall_missing_percentage a \<noteq> 3 / 10)"
  by (simp add: analyze_missing_values_def c5_config_def MissingValuesConfig_default_def
      one_column_frame_def c5_cells_def count_missing_values_def count_where_def py_strip_def
      py_isspace_def py_div_def analyze_missing_patterns_def missing_matrix_def value_counts_def
      analyze_missing_correlations_def generate_imputation_recommendations_def Let_def upt_rec)

text \<open>
  C5, amended. For a 10-row, 1-column dataset with exactly 3 empty-string cells,
  \<open>detect_empty_strings=True\<close> and \<open>detect_na_values=False\<close>: when whitespace detection
  and the custom tokens are turned off too, the check reports a count of 3 and an overall
  percentage of 0.3; with the remaining options at their defaults, and the other seven
  cells matching no detection method, it reports 9 and 0.9.
\<close>

theorem c5_empty_string_counts:
  assumes "length cs = 10" "count_where (\<lambda>c. c = Text []) cs = 3"
  shows "(\<exists>a. analyze_missing_values fr c5_config_only_empty (one_column_frame name cs) = Inr a \<and>
             missing_counts a = [(name, 3)] \<and> overall_missing_percentage a = 3 / 10) \<and>
         ((\<forall>c\<in>set cs. c \<noteq> Text [] \<longrightarrow>
              py_strip (py_str fr c) \<noteq> [] \<and> c \<notin> Text ` set (detect_custom_na c5_config)) \<longrightarrow>
          (\<exists>a. analyze_missing_values fr c5_config (one_column_frame name cs) = Inr a \<and>
             missing_counts a = [(name, 9)] \<and> overall_missing_percentage a = 9 / 10))"
proof (intro conjI impI)
  have ne: "cs \<noteq> []" using assms(1) by auto
  have "count_missing_values fr c5_config_only_empty cs = 3"
    using assms(2)
    by (simp add: count_missing_values_def c5_config_only_empty_def c5_config_def
        MissingValuesConfig_default_def)
  moreover have "analyze_patterns c5_config_only_empty"
    by (simp add: c5_config_only_empty_def c5_config_def MissingValuesConfig_default_def)
  ultimately show "\<exists>a. analyze_missing_values fr c5_config_only_empty (one_column_frame name cs) = Inr a \<and>
             missing_counts a = [(name, 3)] \<and> overall_missing_percentage a = 3 / 10"
    using analyze_one_column[OF ne, of c5_config_only_empty fr name] assms(1) by simp
next
  assume other: "\<forall>c\<in>set cs. c \<noteq> Text [] \<longrightarrow>
              py_strip (py_str fr c) \<noteq> [] \<and> c \<notin> Text ` set (detect_custom_na c5_config)"
  have ne: "cs \<noteq> []" using assms(1) by auto
  have custom: "detect_custom_na c5_config = [''N/A'', ''NULL'', ''null'', ''None'', ''none'', []]"
    by (simp add: c5_config_def MissingValuesConfig_default_def)
  have ws: "count_where (\<lambda>c. py_strip (py_str fr c) = []) cs = 3"
  proof -
    have "count_where (\<lambda>c. py_strip (py_str fr c) = []) cs = count_where (\<lambda>c. c = Text []) cs"
      by (rule count_where_cong) (use other in \<open>auto simp: py_strip_def\<close>)
    then show ?thesis using assms(2) by simp
  qed
  have tok: "count_where (\<lambda>c. c = Text s) cs = 0"
    if "s \<in> set (detect_custom_na c5_config)" "s \<noteq> []" for s
    by (rule count_where_none) (use other that in auto)
  have "count_missing_values fr c5_config cs = 9"
    using assms(2) ws tok
    by (simp add: count_missing_values_def custom)
       (simp add: c5_config_def MissingValuesConfig_default_def)
  moreover have "analyze_patterns c5_config"
    by (simp add: c5_config_def MissingValuesConfig_default_def)
  ultimately show "\<exists>a. analyze_missing_values fr c5_config (one_column_frame name cs) = Inr a \<and>
             missing_counts a = [(name, 9)] \<and> overall_missing_percentage a = 9 / 10"
    using analyze_one_column[OF ne, of c5_config fr name] assms(1) by simp
qed

theorem c5_empty_string_counts_witness:
  "length c5_cells = 10 \<and> count_where (\<lambda>c. c = Text []) c5_cells = 3 \<and>
   (\<exists>a. analyze_missing_values float_repr_integral c5_config_only_empty
            (one_column_frame ''col'' c5_cells) = Inr a \<and>
        missing_counts a = [(''col'', 3)] \<and> overall_missing_percentage a = 3 / 10) \<and>
   (\<exists>a. analyze_missing_values float_repr_integral c5_config
            (one_column_frame ''col'' c5_cells) = Inr a \<and>
        missing_counts a = [(''col'', 9)] \<and> overall_missing_percentage a = 9 / 10)"
proof -
  have 1: "length c5_cells = 10" by (simp add: c5_cells_def)
  have 2: "count_where (\<lambda>c. c = Text []) c5_cells = 3" by (simp add: c5_cells_def count_where_def)
  have 3: "\<forall>c\<in>set c5_cells. c \<noteq> Text [] \<longrightarrow>
              py_strip (py_str float_repr_integral c) \<noteq> [] \<and>
              c \<notin> Text ` set (detect_custom_na c5_config)"
    by (simp add: c5_cells_def c5_config_def MissingValuesConfig_default_def py_strip_def
        py_isspace_def)
  show ?thesis using c5_empty_string_counts[OF 1 2, of float_repr_integral "''col''"] 1 2 3 by blast
qed

lemma no_isna:
  assumes "count_missing_values fr MissingValuesConfig_default cs = 0" "v \<in> set cs"
  shows "\<not> pd_isna v"
proof -
  from assms(1) have "filter pd_isna cs = []"
    by (simp add: count_missing_values_def MissingValuesConfig_default_def count_where_def)
  with assms(2) show ?thesis by (simp add: filter_empty_conv)
qed

lemma missing_matrix_all_present:
  assumes "wf_frame data"
    and "\<forall>c\<in>set (columns data). count_missing_values fr MissingValuesConfig_default (cells c) = 0"
  shows "missing_matrix data = replicate (index_len data) (map (\<lambda>c. False) (columns data))"
proof -
  have "map (\<lambda>c. pd_isna (cells c ! i)) (columns data) = map (\<lambda>c. False) (columns data)"
    if "i < index_len data" for i
  proof (rule map_cong[OF refl])
    fix c assume c: "c \<in> set (columns data)"
    with assms(1) have "length (cells c) = index_len data"
      by (simp add: wf_frame_def list_all_iff)
    with that have "cells c ! i \<in> set (cells c)" by simp
    with assms(2) c show "pd_isna (cells c ! i) = False"
      using no_isna by blast
  qed
  then show ?thesis
    unfolding missing_matrix_def
    by (intro nth_equalityI) auto
qed

text \<open>
  C9. For every dataset with at least one row and one column in which no cell is
  missing under any detection method, the check with its default configuration returns
  score 0.9 and status "passed": the all-present row pattern covers every row, is
  recorded as systematic, and costs the 0.1 penalty.
\<close>

theorem mv_all_present_scores_nine_tenths:
  assumes "wf_frame data" "0 < index_len data" "columns data \<noteq> []"
    and "\<forall>c\<in>set (columns data). count_missing_values fr MissingValuesConfig_default (cells c) = 0"
  shows "score (mv_execute fr el ts MissingValuesConfig_default data) = 9 / 10 \<and>
         status (mv_execute fr el ts MissingValuesConfig_default data) = ''passed'' \<and>
         systematic_missing (analyze_missing_patterns data) =
           [(map (\<lambda>c. False) (columns data), index_len data, 1)]"
proof -
  obtain counts pcts where ac:
    "analyze_columns fr MissingValuesConfig_default (index_len data) (columns data) ([], [], 0)
       = Inr (counts, pcts, 0)" and z: "\<forall>x\<in>set counts. snd x = 0"
    using analyze_columns_zero[OF assms(2) assms(4), of "[]" "[]" 0] by auto
  have s0: "sum_list (map snd counts) = 0" using z by (rule sum_list_zero)
  have pat: "systematic_missing (analyze_missing_patterns data) =
           [(map (\<lambda>c. False) (columns data), index_len data, 1)]"
    using assms(2)
    by (simp add: analyze_missing_patterns_def missing_matrix_all_present[OF assms(1) assms(4)]
        value_counts_replicate)
  then have sys: "systematic_missing (analyze_missing_patterns data) \<noteq> []" by simp
  have cfg: "mv_validate_config MissingValuesConfig_default"
    "analyze_patterns MissingValuesConfig_default" "suggest_imputation MissingValuesConfig_default"
    by (simp_all add: mv_validate_config_def MissingValuesConfig_default_def)
  obtain a where a: "analyze_missing_values fr MissingValuesConfig_default data = Inr a"
    and a1: "overall_missing_percentage a = 0" "columns_with_missing a = 0"
       "total_columns a = length (columns data)"
       "missing_patterns a = Some (analyze_missing_patterns data)"
    using assms(2,3)
    by (simp add: analyze_missing_values_def ac s0 py_div_def cfg
        generate_imputation_recommendations_def Let_def)
  have sc: "mv_calculate_quality_score a = Inr (9 / 10)"
    using assms(3) sys by (simp add: mv_calculate_quality_score_def a1 py_div_def Let_def)
  show ?thesis
    by (simp add: mv_execute_def mv_execute_body_def cfg a sc determine_status_def pat)
qed

theorem mv_all_present_scores_nine_tenths_witness:
  "wf_frame (one_column_frame ''col'' [Text ''a'', IntV 7]) \<and>
   0 < index_len (one_column_frame ''col'' [Text ''a'', IntV 7]) \<and>
   columns (one_column_frame ''col'' [Text ''a'', IntV 7]) \<noteq> [] \<and>
   count_missing_values float_repr_integral MissingValuesConfig_default [Text ''a'', IntV 7] = 0 \<and>
   score (mv_execute float_repr_integral 0 [] MissingValuesConfig_default
            (one_column_frame ''col'' [Text ''a'', IntV 7])) = 9 / 10 \<and>
   status (mv_execute float_repr_integral 0 [] MissingValuesConfig_default
            (one_column_frame ''col'' [Text ''a'', IntV 7])) = ''passed'' \<and>
   systematic_missing (analyze_missing_patterns (one_column_frame ''col'' [Text ''a'', IntV 7])) =
     [([False], 2, 1)]"
proof -
  have 1: "wf_frame (one_column_frame ''col'' [Text ''a'', IntV 7])"
    by (simp add: wf_frame_def one_column_frame_def)
  have 2: "0 < index_len (one_column_frame ''col'' [Text ''a'', IntV 7])"
    by (simp add: one_column_frame_def)
  have 3: "columns (one_column_frame ''col'' [Text ''a'', IntV 7]) \<noteq> []"
    by (simp add: one_column_frame_def)
  have 4: "count_missing_values float_repr_integral MissingValuesConfig_default
             [Text ''a'', IntV 7] = 0"
    by (simp add: count_missing_values_def MissingValuesConfig_default_def count_where_def
        py_strip_def py_isspace_def int_str_def digit_char_def)
  have 5: "\<forall>c\<in>set (columns (one_column_frame ''col'' [Text ''a'', IntV 7])).
             count_missing_values float_repr_integral MissingValuesConfig_default (cells c) = 0"
    using 4 by (simp add: one_column_frame_def)
  have 6: "map (\<lambda>c. False) (columns (one_column_frame ''col'' [Text ''a'', IntV 7])) = [False]"
    "index_len (one_column_frame ''col'' [Text ''a'', IntV 7]) = 2"
    by (simp_all add: one_column_frame_def)
  show ?thesis
    using mv_all_present_scores_nine_tenths[OF 1 2 3 5, of 0 "[]"] 1 2 3 4 by (simp add: 6)
qed

text \<open>
  C10. For every dataset, the check configured with \<open>analyze_patterns=False\<close> returns
  status "error" and score 0.0. When the configuration is valid and the dataset has a
  row and a column, the error is the failed lookup of the key \<open>systematic_missing\<close> in the
  empty patterns dictionary, converted by the handler of \<open>execute\<close>. The scoring step
  makes that lookup whenever it is reached with the empty patterns dictionary.
\<close>

theorem mv_patterns_off_gives_error:
  "\<not> analyze_patterns cfg \<Longrightarrow>
   status (mv_execute fr el ts cfg data) = ''error'' \<and>
   score (mv_execute fr el ts cfg data) = 0 \<and>
   (mv_validate_config cfg \<and> 0 < index_len data \<and> columns data \<noteq> [] \<longrightarrow>
      details (mv_execute fr el ts cfg data) =
        [(''error'', DStr (str_exn (KeyError ''systematic_missing'')))]) \<and>
   (missing_patterns analysis = None \<and> total_columns analysis \<noteq> 0 \<longrightarrow>
      mv_calculate_quality_score analysis = Inl (KeyError ''systematic_missing''))"
  using analyze_columns_Inr[of "index_len data" fr cfg "columns data" "([],[],0)"]
  by (auto simp: mv_execute_def mv_execute_body_def error_result_def analyze_missing_values_def
      generate_imputation_recommendations_def mv_calculate_quality_score_def Let_def py_div_def
      split: sum.splits prod.splits if_splits option.splits)

theorem mv_patterns_off_gives_error_witness:
  "\<not> analyze_patterns no_patterns_config \<and>
   mv_validate_config no_patterns_config \<and>
   status (mv_execute float_repr_integral 0 [] no_patterns_config
             (one_column_frame ''col'' [Text ''a'', IntV 7])) = ''error'' \<and>
   score (mv_execute float_repr_integral 0 [] no_patterns_config
             (one_column_frame ''col'' [Text ''a'', IntV 7])) = 0 \<and>
   details (mv_execute float_repr_integral 0 [] no_patterns_config
             (one_column_frame ''col'' [Text ''a'', IntV 7])) =
     [(''error'', DStr (CHR 0x27 # ''systematic_missing'' @ [CHR 0x27]))] \<and>
   mv_calculate_quality_score no_patterns_analysis = Inl (KeyError ''systematic_missing'')"
proof -
  have 1: "\<not> analyze_patterns no_patterns_config"
    by (simp add: no_patterns_config_def MissingValuesConfig_default_def)
  have 2: "mv_validate_config no_patterns_config"
    by (simp add: no_patterns_config_def MissingValuesConfig_default_def mv_validate_config_def)
  have 3: "0 < index_len (one_column_frame ''col'' [Text ''a'', IntV 7]) \<and>
           columns (one_column_frame ''col'' [Text ''a'', IntV 7]) \<noteq> []"
    by (simp add: one_column_frame_def)
  have 4: "missing_patterns no_patterns_analysis = None \<and> total_columns no_patterns_analysis \<noteq> 0"
    by (simp add: no_patterns_analysis_def)
  show ?thesis
    using mv_patterns_off_gives_error[OF 1, of float_repr_integral 0 "[]"
        "one_column_frame ''col'' [Text ''a'', IntV 7]" no_patterns_analysis] 1 2 3 4
    by simp
qed

section \<open>Properties of the duplicates check\<close>

text \<open>
  C3 fails on the code. The claim says that a column in which both values are missing
  contributes 0.0. Both values are turned into strings before \<open>pd.isna\<close> sees them, so
  the branch that appends 0.0 is never taken: two NaN cells become the equal strings
  \<open>nan\<close> and the column contributes 1.0.
\<close>

theorem both_missing_column_counts_as_equal:
  "column_similarity float_repr NaN NaN = 1 \<and>
   column_similarity float_repr NoneV NoneV = 1 \<and>
   calculate_row_similarity float_repr [NaN] [NaN] = Some 1"
  by (simp add: column_similarity_def calculate_row_similarity_def np_mean_def)

lemma matching_alice_alicia: "matching_total (is_popular ''alicia'') ''alice'' ''alicia'' = 4"
  by code_simp

lemma matching_alice_bob: "matching_total (is_popular ''bob'') ''alice'' ''bob'' = 0"
  by code_simp

lemma matching_alicia_bob: "matching_total (is_popular ''bob'') ''alicia'' ''bob'' = 0"
  by code_simp

lemma matching_30_40: "matching_total (is_popular ''40'') ''30'' ''40'' = 1"
  by code_simp

lemma similarity_rows_0_1:
  "calculate_row_similarity fr (row_at c6_frame 0) (row_at c6_frame (Suc 0)) = Some (19 / 22)"
  by (simp add: calculate_row_similarity_def column_similarity_def row_at_def c6_frame_def
      np_mean_def ratio_def matching_alice_alicia int_str_def)

lemma similarity_rows_0_2:
  "calculate_row_similarity fr (row_at c6_frame 0) (row_at c6_frame 2) = Some (1 / 4)"
  by (simp add: calculate_row_similarity_def column_similarity_def row_at_def c6_frame_def
      np_mean_def ratio_def matching_alice_bob matching_30_40 int_str_def digit_char_def)

lemma similarity_rows_1_2:
  "calculate_row_similarity fr (row_at c6_frame (Suc 0)) (row_at c6_frame 2) = Some (1 / 4)"
  by (simp add: calculate_row_similarity_def column_similarity_def row_at_def c6_frame_def
      np_mean_def ratio_def matching_alicia_bob matching_30_40 int_str_def digit_char_def)

lemma row_pairs_3: "row_pairs 3 = [(0, 1), (0, 2), (1, 2)]"
  by code_simp

lemma group_of_one_pair: "group_similar_rows [(0, Suc 0)] = [(''group_0'', [0, Suc 0])]"
  by code_simp

text \<open>
  C6. With \<open>fuzzy_threshold=0.6\<close>, on the rows \<open>["alice",30]\<close>, \<open>["alicia",30]\<close>,
  \<open>["bob",40]\<close> the only pair that reaches the threshold is the first two rows (mean
  similarity 19/22; the other pairs have 1/4), the only group is their connected
  component, and the third row is in no group.
\<close>

theorem fuzzy_groups_alice_alicia:
  "\<exists>r. detect_fuzzy_duplicates float_repr df_sample c6_config c6_frame = Inr r \<and>
     fz_duplicate_pairs r = [(0, 1)] \<and>
     fz_duplicate_groups r = [(''group_0'', [0, 1])] \<and>
     fz_total_groups r = 1 \<and>
     fz_duplicate_rows r = [0, 1] \<and>
     2 \<notin> set (concat (map snd (fz_duplicate_groups r)))"
proof -
  have idx: "index_len c6_frame = 3" by (simp add: c6_frame_def)
  have cfg: "fuzzy_threshold c6_config = 6 / 10" "max_fuzzy_comparisons c6_config = 10000"
    by (simp_all add: c6_config_def DuplicatesConfig_default_def)
  show ?thesis
    by (simp add: detect_fuzzy_duplicates_def idx cfg row_pairs_3 similarity_rows_0_1
        similarity_rows_0_2 similarity_rows_1_2 List.map_filter_simps group_of_one_pair Let_def)
qed

section \<open>Scores and statuses of the three checks\<close>

lemma mv_score_range: "mv_calculate_quality_score a = Inr q \<Longrightarrow> 0 \<le> q \<and> q \<le> 1"
  by (auto simp: mv_calculate_quality_score_def Let_def split: sum.splits option.splits if_splits)

lemma dup_score_range:
  "0 \<le> dup_calculate_quality_score a \<and> dup_calculate_quality_score a \<le> 1"
  by (simp add: dup_calculate_quality_score_def Let_def)

lemma out_score_range:
  "0 \<le> out_calculate_quality_score a \<and> out_calculate_quality_score a \<le> 1"
  by (simp add: out_calculate_quality_score_def Let_def)

lemma mv_execute_cases:
  "(\<exists>e. mv_execute fr el ts cfg data =
          error_result ''Missing Values Analysis'' ''missing_values'' el ts e) \<or>
   (\<exists>q. 0 \<le> q \<and> q \<le> 1 \<and> score (mv_execute fr el ts cfg data) = q \<and>
        status (mv_execute fr el ts cfg data) = determine_status q)"
  by (auto simp: mv_execute_def mv_execute_body_def split: sum.splits dest: mv_score_range)

lemma dup_execute_cases:
  "(\<exists>e. dup_execute dd el ts cfg data =
          error_result ''Duplicate Detection Analysis'' ''duplicates'' el ts e) \<or>
   (\<exists>q. 0 \<le> q \<and> q \<le> 1 \<and> score (dup_execute dd el ts cfg data) = q \<and>
        status (dup_execute dd el ts cfg data) = determine_status q)"
  using dup_score_range
  by (auto simp: dup_execute_def dup_execute_body_def Let_def split: sum.splits)

lemma out_execute_cases:
  "(\<exists>e. out_execute od el ts cfg data =
          error_result ''Outlier Detection Analysis'' ''outliers'' el ts e) \<or>
   (\<exists>q. 0 \<le> q \<and> q \<le> 1 \<and> score (out_execute od el ts cfg data) = q \<and>
        status (out_execute od el ts cfg data) = determine_status q)"
  using out_score_range
  by (auto simp: out_execute_def out_execute_body_def Let_def split: sum.splits)

lemma classified_result:
  assumes "(\<exists>e. r = error_result name type el ts e) \<or>
           (\<exists>q. 0 \<le> q \<and> q \<le> 1 \<and> score r = q \<and> status r = determine_status q)"
  shows "0 \<le> score r \<and> score r \<le> 1 \<and>
   (status r \<noteq> ''error'' \<longrightarrow>
      status r = (if score r \<ge> 9 / 10 then ''passed''
                  else if score r \<ge> 7 / 10 then ''warning''
                  else if score r \<ge> 1 / 2 then ''failed''
                  else ''critical''))"
  using assms by (auto simp: error_result_def determine_status_def)

text \<open>
  C7. For every dataset and every configuration, the result of \<open>execute\<close> of each of the
  three checks has a score in [0,1], and a status other than "error" is the one given
  by the cut points: passed from 0.9, warning from 0.7, failed from 0.5, else critical.
\<close>

theorem score_in_unit_interval_and_status_by_cut_points:
  "r \<in> {mv_execute float_repr el ts mcfg data,
         dup_execute detect_duplicates el ts dcfg data,
         out_execute detect_outliers el ts ocfg data} \<Longrightarrow>
   0 \<le> score r \<and> score r \<le> 1 \<and>
   (status r \<noteq> ''error'' \<longrightarrow>
      status r = (if score r \<ge> 9 / 10 then ''passed''
                  else if score r \<ge> 7 / 10 then ''warning''
                  else if score r \<ge> 1 / 2 then ''failed''
                  else ''critical''))"
  using classified_result[OF mv_execute_cases[of float_repr el ts mcfg data]]
    classified_result[OF dup_execute_cases[of detect_duplicates el ts dcfg data]]
    classified_result[OF out_execute_cases[of detect_outliers el ts ocfg data]]
  by blast

lemma mv_example_result:
  "score (mv_execute float_repr_integral 0 [] MissingValuesConfig_default c6_frame) = 9 / 10 \<and>
   status (mv_execute float_repr_integral 0 [] MissingValuesConfig_default c6_frame) = ''passed''"
  by (simp add: mv_execute_def mv_execute_body_def mv_validate_config_def
      analyze_missing_values_def MissingValuesConfig_default_def
      c6_frame_def count_missing_values_def count_where_def py_strip_def
      py_isspace_def py_div_def analyze_missing_patterns_def missing_matrix_def value_counts_def
      analyze_missing_correlations_def pearson_def indicator_col_def
      generate_imputation_recommendations_def Let_def upt_rec
      mv_calculate_quality_score_def determine_status_def int_str_def digit_char_def)

lemma dup_example_result:
  "score (dup_execute (\<lambda>c d. Inr example_dup_analysis) 0 [] DuplicatesConfig_default c6_frame)
     = 59 / 100 \<and>
   status (dup_execute (\<lambda>c d. Inr example_dup_analysis) 0 [] DuplicatesConfig_default c6_frame)
     = ''failed''"
  by (simp add: dup_execute_def dup_execute_body_def dup_validate_config_def
      DuplicatesConfig_default_def example_dup_analysis_def dup_calculate_quality_score_def
      dup_total_groups_def get_total_groups_def determine_status_def Let_def)

lemma out_example_result:
  "score (out_execute (\<lambda>c d. Inr example_out_analysis) 0 [] OutliersConfig_default c6_frame)
     = 53 / 60 \<and>
   status (out_execute (\<lambda>c d. Inr example_out_analysis) 0 [] OutliersConfig_default c6_frame)
     = ''warning''"
  by (simp add: out_execute_def out_execute_body_def out_validate_config_def
      OutliersConfig_default_def example_out_analysis_def out_calculate_quality_score_def
      determine_status_def Let_def)

theorem score_in_unit_interval_and_status_by_cut_points_witness:
  "(0 \<le> score (mv_execute float_repr_integral 0 [] MissingValuesConfig_default c6_frame) \<and>
    score (mv_execute float_repr_integral 0 [] MissingValuesConfig_default c6_frame) \<le> 1 \<and>
    status (mv_execute float_repr_integral 0 [] MissingValuesConfig_default c6_frame)
      = ''passed'') \<and>
   (0 \<le> score (dup_execute (\<lambda>c d. Inr example_dup_analysis) 0 [] DuplicatesConfig_default
              c6_frame) \<and>
    score (dup_execute (\<lambda>c d. Inr example_dup_analysis) 0 [] DuplicatesConfig_default
              c6_frame) \<le> 1 \<and>
    status (dup_execute (\<lambda>c d. Inr example_dup_analysis) 0 [] DuplicatesConfig_default
              c6_frame) = ''failed'') \<and>
   (0 \<le> score (out_execute (\<lambda>c d. Inr example_out_analysis) 0 [] OutliersConfig_default
              c6_frame) \<and>
    score (out_execute (\<lambda>c d. Inr example_out_analysis) 0 [] OutliersConfig_default
              c6_frame) \<le> 1 \<and>
    status (out_execute (\<lambda>c d. Inr example_out_analysis) 0 [] OutliersConfig_default
              c6_frame) = ''warning'')"
proof -
  let ?m = "mv_execute float_repr_integral 0 [] MissingValuesConfig_default c6_frame"
  let ?d = "dup_execute (\<lambda>c d. Inr example_dup_analysis) 0 [] DuplicatesConfig_default c6_frame"
  let ?o = "out_execute (\<lambda>c d. Inr example_out_analysis) 0 [] OutliersConfig_default c6_frame"
  have mem: "?m \<in> {?m, ?d, ?o}" "?d \<in> {?m, ?d, ?o}" "?o \<in> {?m, ?d, ?o}" by simp_all
  have ne: "status ?m \<noteq> ''error''" "status ?d \<noteq> ''error''" "status ?o \<noteq> ''error''"
    using mv_example_result dup_example_result out_example_result by simp_all
  have sc: "score ?m = 9 / 10" "score ?d = 59 / 100" "score ?o = 53 / 60"
    using mv_example_result dup_example_result out_example_result by simp_all
  from score_in_unit_interval_and_status_by_cut_points[OF mem(1)] ne(1) sc(1)
  have 1: "0 \<le> score ?m \<and> score ?m \<le> 1 \<and> status ?m = ''passed''" by simp
  from score_in_unit_interval_and_status_by_cut_points[OF mem(2)] ne(2) sc(2)
  have 2: "0 \<le> score ?d \<and> score ?d \<le> 1 \<and> status ?d = ''failed''" by simp
  from score_in_unit_interval_and_status_by_cut_points[OF mem(3)] ne(3) sc(3)
  have 3: "0 \<le> score ?o \<and> score ?o \<le> 1 \<and> status ?o = ''warning''" by simp
  from 1 2 3 show ?thesis by blast
qed

section \<open>Properties of the modified z-score method\<close>

lemma median_replicate: "n > 0 \<Longrightarrow> median (replicate n v) = v"
proof -
  assume n: "n > 0"
  have s: "sort (replicate n v) = replicate n v"
    by (rule sorted_sort_id) (simp add: sorted_replicate)
  have "n div 2 < n" "n div 2 - 1 < n" using n by auto
  then show ?thesis by (simp add: median_def s Let_def)
qed

lemma all_same_replicate: "\<forall>x\<in>set xs. x = v \<Longrightarrow> xs = replicate (length xs) v"
  by (induction xs) auto

lemma mad_all_identical:
  assumes "dropna series \<noteq> []" "\<forall>x\<in>set (map snd (dropna series)). x = v"
  shows "mad_of series = 0"
proof -
  let ?xs = "map snd (dropna series)"
  have n: "length ?xs > 0" using assms(1) by simp
  have xs: "?xs = replicate (length ?xs) v" using assms(2) by (rule all_same_replicate)
  have med: "median ?xs = v" using median_replicate[OF n, of v] xs by simp
  have "map (\<lambda>x. \<bar>x - v\<bar>) ?xs = replicate (length ?xs) 0"
    by (subst xs) (simp only: map_replicate, simp)
  then show ?thesis
    using median_replicate[OF n, of 0] by (simp add: mad_of_def med Let_def)
qed

lemma zero_mad_skipped:
  "mad_of series = 0 \<Longrightarrow> modified_zscore_column cfg column series acc = acc"
  by (simp add: modified_zscore_column_def mad_of_def Let_def case_prod_unfold comp_def)

lemma loop_no_zero_division:
  "modified_zscore_loop cfg data names acc \<noteq> Inl ZeroDivisionError"
  by (induction names arbitrary: acc) (auto split: option.splits)

lemma loop_all_skipped:
  "\<forall>n\<in>set names. \<exists>c. find (\<lambda>c. cname c = n) (columns data) = Some c \<and> mad_of (cells c) = 0 \<Longrightarrow>
   modified_zscore_loop cfg data names acc = Inr acc"
  by (induction names arbitrary: acc) (auto simp: zero_mad_skipped)

text \<open>
  C8. In the modified z-score method a column whose median absolute deviation is 0 is
  skipped: the step for that column leaves the set of outlier rows and the dictionary of
  column outliers as they were. A column whose values are all identical has MAD 0. When
  every named column has MAD 0 the method returns no outlier at all, and on no input
  does the method end in a division error.
\<close>

theorem modified_zscore_skips_zero_mad:
  "(mad_of series = 0 \<longrightarrow> modified_zscore_column cfg column series acc = acc) \<and>
   (dropna series \<noteq> [] \<and> (\<forall>x\<in>set (map snd (dropna series)). x = v) \<longrightarrow> mad_of series = 0) \<and>
   ((\<forall>n\<in>set names. \<exists>c. find (\<lambda>c. cname c = n) (columns data) = Some c \<and> mad_of (cells c) = 0) \<longrightarrow>
      (\<exists>r. detect_modified_zscore_outliers cfg data names = Inr r \<and>
           outlier_rows r = [] \<and> column_outliers r = [] \<and> total_outliers r = 0)) \<and>
   detect_modified_zscore_outliers cfg data names \<noteq> Inl ZeroDivisionError"
proof (intro conjI impI)
  assume "mad_of series = 0"
  then show "modified_zscore_column cfg column series acc = acc" by (rule zero_mad_skipped)
next
  assume "dropna series \<noteq> [] \<and> (\<forall>x\<in>set (map snd (dropna series)). x = v)"
  then show "mad_of series = 0" using mad_all_identical by blast
next
  assume "\<forall>n\<in>set names. \<exists>c. find (\<lambda>c. cname c = n) (columns data) = Some c \<and> mad_of (cells c) = 0"
  then have "modified_zscore_loop cfg data names ([], []) = Inr ([], [])"
    by (rule loop_all_skipped)
  then show "\<exists>r. detect_modified_zscore_outliers cfg data names = Inr r \<and>
           outlier_rows r = [] \<and> column_outliers r = [] \<and> total_outliers r = 0"
    by (simp add: detect_modified_zscore_outliers_def)
next
  show "detect_modified_zscore_outliers cfg data names \<noteq> Inl ZeroDivisionError"
    using loop_no_zero_division[of cfg data names "([], [])"]
    by (auto simp: detect_modified_zscore_outliers_def split: sum.splits)
qed

lemma dropna_identical:
  "dropna [FloatV 5, NaN, FloatV 5, FloatV 5] = [(0, 5), (2, 5), (3, 5)]"
  by (simp add: dropna_def List.map_filter_simps enumerate_eq_zip upt_rec)

lemma dropna_c8:
  "dropna [IntV 1, IntV 1, IntV 1, IntV 1, IntV 5] = [(0, 1), (1, 1), (2, 1), (3, 1), (4, 5)]"
  by (simp add: dropna_def List.map_filter_simps enumerate_eq_zip upt_rec)

lemma mad_c8: "mad_of [IntV 1, IntV 1, IntV 1, IntV 1, IntV 5] = 0"
  by (simp add: mad_of_def dropna_c8 median_def Let_def)

text \<open>
  Two instances: a column of identical values with a missing cell, and the column
  \<open>1, 1, 1, 1, 5\<close>, whose MAD is 0 although the values differ: dividing by that MAD
  would give the value 5 an infinite score, above every threshold.
\<close>

theorem modified_zscore_skips_zero_mad_witness:
  "mad_of [FloatV 5, NaN, FloatV 5, FloatV 5] = 0 \<and>
   modified_zscore_column OutliersConfig_default ''x'' [FloatV 5, NaN, FloatV 5, FloatV 5] ([], [])
     = ([], []) \<and>
   mad_of (cells (hd (columns c8_frame))) = 0 \<and>
   np_abs_gt (np_divide (6745 / 10000 * (5 - 1)) 0) (modified_zscore_threshold OutliersConfig_default) \<and>
   (\<exists>r. detect_modified_zscore_outliers OutliersConfig_default c8_frame [''x''] = Inr r \<and>
        outlier_rows r = [] \<and> column_outliers r = [] \<and> total_outliers r = 0)"
proof -
  have same: "dropna [FloatV 5, NaN, FloatV 5, FloatV 5] \<noteq> [] \<and>
      (\<forall>x\<in>set (map snd (dropna [FloatV 5, NaN, FloatV 5, FloatV 5])). x = 5)"
    by (simp add: dropna_identical)
  have cols: "\<forall>n\<in>set [''x'']. \<exists>c. find (\<lambda>c. cname c = n) (columns c8_frame) = Some c \<and>
      mad_of (cells c) = 0"
    by (simp add: c8_frame_def mad_c8)
  have inf: "np_abs_gt (np_divide (6745 / 10000 * (5 - 1)) 0)
      (modified_zscore_threshold OutliersConfig_default)"
    by (simp add: np_divide_def)
  have hd: "mad_of (cells (hd (columns c8_frame))) = 0"
    by (simp add: c8_frame_def mad_c8)
  show ?thesis
    using modified_zscore_skips_zero_mad
      [of "[FloatV 5, NaN, FloatV 5, FloatV 5]" OutliersConfig_default "''x''" "([], [])" 5
          "[''x'']" c8_frame]
      same cols inf hd
    by blast
qed

section \<open>Properties of the engine\<close>

lemma execute_check_no_run: "CallRun k \<notin> set (snd (execute_check env data t rules))"
  by (simp add: execute_check_def)

text \<open>
  C4, as stated, fails: for the requested type \<open>missing_values\<close> on a non-empty dataset
  the engine constructs the check and calls its \<open>execute\<close> method; \<open>run\<close> is not called.
\<close>

theorem engine_does_not_call_run_counterexample:
  "snd (snd (run_quality_checks example_env [] c6_frame (Some [''missing_values'']) None)) =
     [Construct ''MissingValuesCheck'', CallExecute ''MissingValuesCheck''] \<and>
   CallRun ''MissingValuesCheck'' \<notin>
     set (snd (snd (run_quality_checks example_env [] c6_frame (Some [''missing_values'']) None)))"
  by (simp add: run_quality_checks_def df_empty_def c6_frame_def execute_check_def Let_def
      List.map_filter_simps)

text \<open>
  C4, amended. For each of the requested types \<open>missing_values\<close>, \<open>duplicates\<close> and
  \<open>outliers\<close> the engine constructs the check with its default configuration and invokes
  the check's \<open>execute\<close> method, whose result it returns; \<open>run\<close> is never invoked. The type
  \<open>data_types\<close> gives a fixed placeholder result with no check constructed. On a
  non-empty dataset the run is the sequence of these steps over the requested types.
\<close>

theorem engine_invokes_execute_with_default_config:
  "execute_check env data ''missing_values'' rules =
     (Some (mv_execute (env_float_repr env) (env_elapsed env) (env_iso_now env)
              MissingValuesConfig_default data),
      [Construct ''MissingValuesCheck'', CallExecute ''MissingValuesCheck'']) \<and>
   execute_check env data ''duplicates'' rules =
     (Some (dup_execute (env_detect_duplicates env) (env_elapsed env) (env_iso_now env)
              DuplicatesConfig_default data),
      [Construct ''DuplicatesCheck'', CallExecute ''DuplicatesCheck'']) \<and>
   execute_check env data ''outliers'' rules =
     (Some (out_execute (env_detect_outliers env) (env_elapsed env) (env_iso_now env)
              OutliersConfig_default data),
      [Construct ''OutliersCheck'', CallExecute ''OutliersCheck'']) \<and>
   execute_check env data ''data_types'' rules =
     (Some (data_types_placeholder (env_iso_now env)), []) \<and>
   CallRun k \<notin> set (snd (snd (run_quality_checks env results data check_types rules))) \<and>
   (\<not> df_empty data \<and> requested \<noteq> [] \<longrightarrow>
      run_quality_checks env results data (Some requested) rules =
        (List.map_filter (\<lambda>t. fst (execute_check env data t rules)) requested,
         results @ List.map_filter (\<lambda>t. fst (execute_check env data t rules)) requested,
         concat (map (\<lambda>t. snd (execute_check env data t rules)) requested)))"
proof -
  have "CallRun k \<notin> set (snd (snd (run_quality_checks env results data check_types rules)))"
    using execute_check_no_run[of k env data _ rules]
    by (auto simp: run_quality_checks_def Let_def)
  moreover have "List.map_filter fst (map (\<lambda>t. execute_check env data t rules) requested) =
      List.map_filter (\<lambda>t. fst (execute_check env data t rules)) requested"
    by (induction requested) (auto split: option.splits)
  ultimately show ?thesis
    by (simp add: execute_check_def run_quality_checks_def Let_def comp_def)
qed

theorem engine_invokes_execute_with_default_config_witness:
  "\<not> df_empty c6_frame \<and>
   run_quality_checks example_env [] c6_frame (Some [''outliers'', ''data_types'']) None =
     ([out_execute (env_detect_outliers example_env) (env_elapsed example_env)
         (env_iso_now example_env) OutliersConfig_default c6_frame,
       data_types_placeholder (env_iso_now example_env)],
      [out_execute (env_detect_outliers example_env) (env_elapsed example_env)
         (env_iso_now example_env) OutliersConfig_default c6_frame,
       data_types_placeholder (env_iso_now example_env)],
      [Construct ''OutliersCheck'', CallExecute ''OutliersCheck''])"
proof -
  have ne: "\<not> df_empty c6_frame" by (simp add: df_empty_def c6_frame_def)
  show ?thesis
    using engine_invokes_execute_with_default_config
      [of example_env c6_frame None "CHR ''k'' # []" "[]" None "[''outliers'', ''data_types'']"] ne
    by simp
qed

end
